theory Spec2Isabelle
  imports Complex_Main
begin

section \<open>Strings and numbers as the client uses them\<close>

text \<open>
  The client is TypeScript. Its strings are modelled as \<^typ>\<open>string\<close> (every character a
  code unit below 256), and a value that may be \<^verbatim>\<open>null\<close> as an \<^typ>\<open>'a option\<close>.
  JavaScript's truthiness of a nullable string (\<^verbatim>\<open>null\<close> and the empty string are
  falsy) is \<open>truthy\<close>; \<^verbatim>\<open>a || b\<close> on such a value is \<open>or_else\<close>.
\<close>

definition truthy :: "string option \<Rightarrow> bool" where
  "truthy v = (case v of None \<Rightarrow> False | Some s \<Rightarrow> s \<noteq> [])"

definition or_else :: "string option \<Rightarrow> string \<Rightarrow> string" where
  "or_else v d = (if truthy v then the v else d)"

text \<open>\<^verbatim>\<open>s.startsWith(p)\<close>: the first \<open>length p\<close> characters of \<open>s\<close> are \<open>p\<close>.\<close>

definition startsWith :: "string \<Rightarrow> string \<Rightarrow> bool" where
  "startsWith s p = (take (length p) s = p)"

text \<open>\<^verbatim>\<open>xs.join(sep)\<close> and \<^verbatim>\<open>s.split(sep)\<close> for a one-character separator.\<close>

fun js_join :: "char \<Rightarrow> string list \<Rightarrow> string" where
  "js_join sep [] = []"
| "js_join sep [x] = x"
| "js_join sep (x # y # ys) = x @ sep # js_join sep (y # ys)"

fun js_split :: "char \<Rightarrow> string \<Rightarrow> string list" where
  "js_split sep [] = [[]]"
| "js_split sep (c # cs) =
     (if c = sep then [] # js_split sep cs
      else (case js_split sep cs of [] \<Rightarrow> [[c]] | w # ws \<Rightarrow> (c # w) # ws))"

text \<open>
  White space and line terminators below code 256: TAB, LF, VT, FF, CR, SP and NBSP.
  \<^verbatim>\<open>s.trim()\<close> removes them at both ends.
\<close>

definition is_space :: "char \<Rightarrow> bool" where
  "is_space c =
     (c \<in> set [CHR 0x09, CHR 0x0A, CHR 0x0B, CHR 0x0C, CHR 0x0D, CHR '' '', CHR 0xA0])"

definition trim :: "string \<Rightarrow> string" where
  "trim s = rev (dropWhile is_space (rev (dropWhile is_space s)))"

text \<open>
  \<^verbatim>\<open>parseInt(str)\<close> without a radix: leading white space is skipped, an optional sign
  is read, a \<^verbatim>\<open>0x\<close> prefix selects radix 16 (otherwise 10), and the longest run of
  digits is converted; no digit at all gives \<^verbatim>\<open>NaN\<close>, here \<open>None\<close>. The result is
  the exact integer, which is what JavaScript returns as long as it is below \<open>2 ^ 53\<close>.
\<close>

definition digit_of :: "nat \<Rightarrow> char \<Rightarrow> nat option" where
  "digit_of radix c =
     (let k = (of_char c :: nat);
          v = (if 48 \<le> k \<and> k \<le> 57 then Some (k - 48)
               else if 97 \<le> k \<and> k \<le> 122 then Some (k - 87)
               else if 65 \<le> k \<and> k \<le> 90 then Some (k - 55)
               else None)
      in case v of None \<Rightarrow> None | Some d \<Rightarrow> if d < radix then Some d else None)"

definition parseInt :: "string \<Rightarrow> int option" where
  "parseInt str =
     (let s = dropWhile is_space str;
          neg = (take 1 s = ''-'');
          s1 = (if take 1 s = ''+'' \<or> take 1 s = ''-'' then drop 1 s else s);
          hex = (take 2 s1 = ''0x'' \<or> take 2 s1 = ''0X'');
          radix = (if hex then 16 else 10);
          s2 = (if hex then drop 2 s1 else s1);
          z = takeWhile (\<lambda>c. digit_of radix c \<noteq> None) s2;
          mathInt = foldl (\<lambda>a c. a * radix + the (digit_of radix c)) 0 z
      in if z = [] then None else Some (if neg then - int mathInt else int mathInt))"

text \<open>
  Multiplication of an integer by a constant of type \<^verbatim>\<open>number\<close>. A JavaScript number
  is an IEEE-754 double: 53 significant bits, round to nearest, ties to even. The
  constant is given as \<open>m * 2 ^ - e\<close> with \<open>m\<close> its 53-bit significand, so the exact
  product of \<open>t\<close> and the constant is \<open>t * m * 2 ^ - e\<close>, and the double that
  \<^verbatim>\<open>t * c\<close> evaluates to is \<open>round53 (t * m) * 2 ^ - e\<close>. \<open>bits n\<close> is the length of \<open>n\<close>
  in binary. \<open>floor_times t m e\<close> is \<^verbatim>\<open>Math.floor(t * c)\<close>.
\<close>

fun bits :: "nat \<Rightarrow> nat" where
  "bits n = (if n = 0 then 0 else Suc (bits (n div 2)))"

declare bits.simps [simp del]

definition round53 :: "nat \<Rightarrow> nat" where
  "round53 n =
     (if bits n \<le> 53 then n
      else (let s = bits n - 53; q = n div 2 ^ s; r = n mod 2 ^ s
            in (if 2 ^ (s - 1) < r \<or> (r = 2 ^ (s - 1) \<and> odd q) then q + 1 else q) * 2 ^ s))"

definition floor_times :: "int \<Rightarrow> nat \<Rightarrow> nat \<Rightarrow> int" where
  "floor_times t m e =
     (if 0 \<le> t then int (round53 (nat t * m)) div 2 ^ e
      else (- int (round53 (nat (- t) * m))) div 2 ^ e)"

text \<open>
  The doubles written \<^verbatim>\<open>0.3\<close> and \<^verbatim>\<open>0.7\<close>:
  \<open>0.3\<close> is \<open>5404319552844595 * 2 ^ - 54\<close> and \<open>0.7\<close> is \<open>6305039478318694 * 2 ^ - 53\<close>.
\<close>

definition floor_times_0_3 :: "int \<Rightarrow> int" where
  "floor_times_0_3 t = floor_times t 5404319552844595 54"

definition floor_times_0_7 :: "int \<Rightarrow> int" where
  "floor_times_0_7 t = floor_times t 6305039478318694 53"

section \<open>Effects of a handler\<close>

text \<open>
  A handler's observable effects, in the order it performs them: a modal
  \<^verbatim>\<open>Alert.alert(title, message)\<close>, a navigation, or a line on the developer console
  (which the user does not see). Spinner flags (\<^verbatim>\<open>setLoading\<close>, \<^verbatim>\<open>setCooking\<close>,
  \<^verbatim>\<open>setSaving\<close>), closing a modal, reloading a list and \<^verbatim>\<open>console.log\<close> tracing are
  left out. Where an alert carries a button whose press navigates, the navigation
  follows the alert.
\<close>

datatype effect =
    Alert string string
  | RouterPush string
  | RouterReplace string
  | RouterBack
  | ConsoleError string

definition alerts :: "effect list \<Rightarrow> (string \<times> string) list" where
  "alerts es = concat (map (\<lambda>e. case e of Alert t m \<Rightarrow> [(t, m)] | _ \<Rightarrow> []) es)"

text \<open>The button pressed in a two-button confirmation dialog.\<close>

datatype button = Cancel | Confirm

section \<open>The remote database\<close>

text \<open>
  The tables as \<^verbatim>\<open>docs/databse.md\<close> declares them. \<^verbatim>\<open>ingredients\<close> and
  \<^verbatim>\<open>utensils\<close> have primary key \<^verbatim>\<open>id\<close> and the constraints
  \<^verbatim>\<open>unique_ingredient_for_user\<close> and \<^verbatim>\<open>unique_utensil_for_user\<close> on
  \<^verbatim>\<open>(user_id, name)\<close>; \<^verbatim>\<open>profiles\<close> and \<^verbatim>\<open>user_preferences\<close> are keyed by the
  user's id. A table is the list of its rows in insertion order.
\<close>

type_synonym uuid = string

record profile =
  full_name :: string
  onboarding_complete :: bool

record ingredient =
  ing_id :: nat
  ing_user_id :: uuid
  ing_name :: string
  ing_quantity :: rat
  ing_unit :: string

record utensil =
  ut_id :: nat
  ut_user_id :: uuid
  ut_name :: string

record preferences_row =
  pref_diet :: "string option"
  pref_tastes :: "string list"
  pref_difficulty :: "string option"
  pref_time_minutes :: "int option"
  pref_portions :: "int option"

record recipe =
  rec_id :: nat
  rec_user_id :: uuid
  rec_title :: string
  rec_description :: string
  rec_ingredients :: "(string \<times> string) list"
  rec_instructions :: "string list"
  rec_prep_time_minutes :: int
  rec_cook_time_minutes :: int
  rec_servings :: int
  rec_is_used :: bool

record database =
  profiles :: "uuid \<rightharpoonup> profile"
  ingredients :: "ingredient list"
  utensils :: "utensil list"
  user_preferences :: "uuid \<rightharpoonup> preferences_row"
  recipes :: "recipe list"

text \<open>
  How the service treats one call: it works; it answers with an error of the given code
  and changes nothing; or the call throws. The answer to a write is \<open>Done\<close>,
  \<open>Failed code\<close> (the \<^verbatim>\<open>error\<close> field is set) or \<open>Raised\<close>. A read answers with the
  pair \<^verbatim>\<open>{ data, error }\<close>, each possibly \<^verbatim>\<open>null\<close>, or throws.
\<close>

datatype fault = NoFault | Rejects string | Throws

datatype outcome = Done | Failed string | Raised

datatype 'a remote = Threw | Resolved "'a option" "string option"

definition next_id :: "nat list \<Rightarrow> nat" where
  "next_id ids = Suc (fold max ids 0)"

definition db_write ::
  "fault \<Rightarrow> (database \<Rightarrow> outcome \<times> database) \<Rightarrow> database \<Rightarrow> outcome \<times> database" where
  "db_write f body db =
     (case f of NoFault \<Rightarrow> body db | Rejects code \<Rightarrow> (Failed code, db) | Throws \<Rightarrow> (Raised, db))"

text \<open>
  \<^verbatim>\<open>from('ingredients').insert(row)\<close>: a row with the same \<^verbatim>\<open>(user_id, name)\<close>
  violates the unique constraint, which the database reports with code 23505.
\<close>

definition insert_ingredient ::
  "fault \<Rightarrow> uuid \<Rightarrow> string \<Rightarrow> rat \<Rightarrow> string \<Rightarrow> database \<Rightarrow> outcome \<times> database" where
  "insert_ingredient f uid n q u =
     db_write f (\<lambda>db.
       if \<exists>r \<in> set (ingredients db). ing_user_id r = uid \<and> ing_name r = n
       then (Failed ''23505'', db)
       else (Done, db\<lparr>ingredients := ingredients db @
               [\<lparr>ing_id = next_id (map ing_id (ingredients db)), ing_user_id = uid,
                 ing_name = n, ing_quantity = q, ing_unit = u\<rparr>]\<rparr>))"

text \<open>
  \<^verbatim>\<open>from('ingredients').update(row).eq('id', i)\<close>: row-level security restricts the
  update to the caller's own row with that id; the unique constraint is checked against
  the other rows.
\<close>

definition update_ingredient ::
  "fault \<Rightarrow> uuid \<Rightarrow> nat \<Rightarrow> string \<Rightarrow> rat \<Rightarrow> string \<Rightarrow> database \<Rightarrow> outcome \<times> database" where
  "update_ingredient f uid i n q u =
     db_write f (\<lambda>db.
       if (\<exists>r \<in> set (ingredients db). ing_id r = i \<and> ing_user_id r = uid) \<and>
          (\<exists>r \<in> set (ingredients db). ing_id r \<noteq> i \<and> ing_user_id r = uid \<and> ing_name r = n)
       then (Failed ''23505'', db)
       else (Done, db\<lparr>ingredients :=
               map (\<lambda>r. if ing_id r = i \<and> ing_user_id r = uid
                         then r\<lparr>ing_name := n, ing_quantity := q, ing_unit := u\<rparr> else r)
                   (ingredients db)\<rparr>))"

text \<open>
  \<^verbatim>\<open>from('ingredients').delete().eq('id', i)\<close> under the session of \<open>caller\<close> (\<open>None\<close>
  when nobody is signed in): only the caller's own rows are visible to it.
\<close>

definition delete_ingredient :: "fault \<Rightarrow> uuid option \<Rightarrow> nat \<Rightarrow> database \<Rightarrow> outcome \<times> database" where
  "delete_ingredient f caller i =
     db_write f (\<lambda>db.
       (Done, db\<lparr>ingredients :=
                filter (\<lambda>r. \<not> (ing_id r = i \<and> Some (ing_user_id r) = caller)) (ingredients db)\<rparr>))"

definition insert_utensil :: "fault \<Rightarrow> uuid \<Rightarrow> string \<Rightarrow> database \<Rightarrow> outcome \<times> database" where
  "insert_utensil f uid n =
     db_write f (\<lambda>db.
       if \<exists>r \<in> set (utensils db). ut_user_id r = uid \<and> ut_name r = n
       then (Failed ''23505'', db)
       else (Done, db\<lparr>utensils := utensils db @
               [\<lparr>ut_id = next_id (map ut_id (utensils db)), ut_user_id = uid, ut_name = n\<rparr>]\<rparr>))"

definition update_utensil :: "fault \<Rightarrow> uuid \<Rightarrow> nat \<Rightarrow> string \<Rightarrow> database \<Rightarrow> outcome \<times> database" where
  "update_utensil f uid i n =
     db_write f (\<lambda>db.
       if (\<exists>r \<in> set (utensils db). ut_id r = i \<and> ut_user_id r = uid) \<and>
          (\<exists>r \<in> set (utensils db). ut_id r \<noteq> i \<and> ut_user_id r = uid \<and> ut_name r = n)
       then (Failed ''23505'', db)
       else (Done, db\<lparr>utensils :=
               map (\<lambda>r. if ut_id r = i \<and> ut_user_id r = uid then r\<lparr>ut_name := n\<rparr> else r)
                   (utensils db)\<rparr>))"

definition delete_utensil :: "fault \<Rightarrow> uuid option \<Rightarrow> nat \<Rightarrow> database \<Rightarrow> outcome \<times> database" where
  "delete_utensil f caller i =
     db_write f (\<lambda>db.
       (Done, db\<lparr>utensils :=
                filter (\<lambda>r. \<not> (ut_id r = i \<and> Some (ut_user_id r) = caller)) (utensils db)\<rparr>))"

text \<open>\<^verbatim>\<open>from('user_preferences').upsert(row)\<close>: the user's single row is replaced.\<close>

definition upsert_preferences :: "fault \<Rightarrow> uuid \<Rightarrow> preferences_row \<Rightarrow> database \<Rightarrow> outcome \<times> database" where
  "upsert_preferences f uid row =
     db_write f (\<lambda>db. (Done, db\<lparr>user_preferences := (user_preferences db)(uid \<mapsto> row)\<rparr>))"

definition insert_recipe :: "fault \<Rightarrow> recipe \<Rightarrow> database \<Rightarrow> outcome \<times> database" where
  "insert_recipe f row =
     db_write f (\<lambda>db.
       (Done, db\<lparr>recipes := recipes db @
                [row\<lparr>rec_id := next_id (map rec_id (recipes db))\<rparr>]\<rparr>))"

definition delete_recipe :: "fault \<Rightarrow> uuid option \<Rightarrow> nat \<Rightarrow> database \<Rightarrow> outcome \<times> database" where
  "delete_recipe f caller i =
     db_write f (\<lambda>db.
       (Done, db\<lparr>recipes :=
                filter (\<lambda>r. \<not> (rec_id r = i \<and> Some (rec_user_id r) = caller)) (recipes db)\<rparr>))"

text \<open>
  \<^verbatim>\<open>from('profiles').update({ onboarding_complete: b }).eq('id', uid)\<close>: the profile
  row, when there is one, gets the flag; no row, no change.
\<close>

definition update_onboarding_complete :: "fault \<Rightarrow> uuid \<Rightarrow> bool \<Rightarrow> database \<Rightarrow> outcome \<times> database" where
  "update_onboarding_complete f uid b =
     db_write f (\<lambda>db.
       (Done, case profiles db uid of
                None \<Rightarrow> db
              | Some p \<Rightarrow> db\<lparr>profiles := (profiles db)(uid \<mapsto> p\<lparr>onboarding_complete := b\<rparr>)\<rparr>))"

text \<open>
  \<^verbatim>\<open>from('profiles').select('onboarding_complete').eq('id', uid).single()\<close> and
  \<^verbatim>\<open>from('user_preferences').select('*').eq('id', uid).single()\<close>: without a row,
  \<^verbatim>\<open>data\<close> is \<^verbatim>\<open>null\<close> and the error has code PGRST116.
\<close>

definition select_single :: "fault \<Rightarrow> 'a option \<Rightarrow> 'a remote" where
  "select_single f row =
     (case f of
        Throws \<Rightarrow> Threw
      | Rejects code \<Rightarrow> Resolved None (Some code)
      | NoFault \<Rightarrow> (case row of None \<Rightarrow> Resolved None (Some ''PGRST116'')
                             | Some r \<Rightarrow> Resolved (Some r) None))"

section \<open>Onboarding: ingredients screen\<close>

text \<open>
  \<^verbatim>\<open>handleSaveIngredient\<close> of \<^verbatim>\<open>OnboardingIngredients\<close>. \<open>parseFloat\<close> is JavaScript's
  own function, taken as a parameter (\<open>None\<close> for \<^verbatim>\<open>NaN\<close>); \<open>user\<close> is the result of
  \<^verbatim>\<open>supabase.auth.getUser()\<close>; \<open>editingIngredient\<close> is the row being edited, if any.
\<close>

record ingredient_form =
  form_name :: string
  form_quantity :: string
  form_unit :: string

definition save_ingredient_catch :: "effect list" where
  "save_ingredient_catch =
     [ConsoleError ''Failed to save ingredient:'', Alert ''Error'' ''Failed to save ingredient'']"

definition duplicate_ingredient_alert :: effect where
  "duplicate_ingredient_alert =
     Alert ''Duplicate Ingredient''
       ''You already have this ingredient in your inventory. Please use a different name or edit the existing one.''"

definition handleSaveIngredient ::
  "(string \<Rightarrow> rat option) \<Rightarrow> fault \<Rightarrow> uuid option \<Rightarrow> ingredient option \<Rightarrow> ingredient_form \<Rightarrow>
   database \<Rightarrow> effect list \<times> database" where
  "handleSaveIngredient parseFloat f user editingIngredient formData db =
     (if form_name formData = [] \<or> form_quantity formData = [] \<or> form_unit formData = []
      then ([Alert ''Error'' ''Please fill in all fields''], db)
      else
        (case parseFloat (form_quantity formData) of
           None \<Rightarrow> ([Alert ''Error'' ''Please enter a valid quantity''], db)
         | Some quantity \<Rightarrow>
             if quantity \<le> 0 then ([Alert ''Error'' ''Please enter a valid quantity''], db)
             else
               (case user of
                  None \<Rightarrow> (save_ingredient_catch, db)
                | Some uid \<Rightarrow>
                    (let result =
                       (case editingIngredient of
                          Some e \<Rightarrow>
                            update_ingredient f uid (ing_id e) (trim (form_name formData)) quantity
                              (trim (form_unit formData)) db
                        | None \<Rightarrow>
                            insert_ingredient f uid (trim (form_name formData)) quantity
                              (trim (form_unit formData)) db)
                     in case fst result of
                          Done \<Rightarrow> ([], snd result)
                        | Failed code \<Rightarrow>
                            if code = ''23505''
                            then ([ConsoleError ''Supabase error:'', duplicate_ingredient_alert],
                                  snd result)
                            else (ConsoleError ''Supabase error:'' # save_ingredient_catch,
                                  snd result)
                        | Raised \<Rightarrow> (save_ingredient_catch, snd result)))))"

text \<open>
  \<^verbatim>\<open>handleDeleteIngredient\<close>: the confirmation dialog, then, when "Delete" is pressed,
  the request. There is no \<^verbatim>\<open>try\<close> around the request; an error in the answer is
  written to the console only.
\<close>

definition handleDeleteIngredient ::
  "button \<Rightarrow> fault \<Rightarrow> uuid option \<Rightarrow> nat \<Rightarrow> database \<Rightarrow> effect list \<times> database" where
  "handleDeleteIngredient pressed f caller ingredientId db =
     (let dialog = Alert ''Delete Ingredient'' ''Are you sure you want to delete this ingredient?''
      in case pressed of
           Cancel \<Rightarrow> ([dialog], db)
         | Confirm \<Rightarrow>
             (let result = delete_ingredient f caller ingredientId db
              in case fst result of
                   Done \<Rightarrow> ([dialog], snd result)
                 | Failed code \<Rightarrow> ([dialog, ConsoleError ''Delete error:''], snd result)
                 | Raised \<Rightarrow> ([dialog], snd result)))"

section \<open>Onboarding: utensils screen\<close>

definition save_utensil_catch :: "effect list" where
  "save_utensil_catch =
     [ConsoleError ''Failed to save utensil:'', Alert ''Error'' ''Failed to save utensil'']"

definition handleSaveUtensil ::
  "fault \<Rightarrow> uuid option \<Rightarrow> utensil option \<Rightarrow> string \<Rightarrow> database \<Rightarrow> effect list \<times> database" where
  "handleSaveUtensil f user editingUtensil name db =
     (if trim name = [] then ([Alert ''Error'' ''Please enter a utensil name''], db)
      else
        (case user of
           None \<Rightarrow> (save_utensil_catch, db)
         | Some uid \<Rightarrow>
             (let result =
                (case editingUtensil of
                   Some e \<Rightarrow> update_utensil f uid (ut_id e) (trim name) db
                 | None \<Rightarrow> insert_utensil f uid (trim name) db)
              in case fst result of
                   Done \<Rightarrow> ([], snd result)
                 | Failed code \<Rightarrow> (ConsoleError ''Supabase error:'' # save_utensil_catch, snd result)
                 | Raised \<Rightarrow> (save_utensil_catch, snd result))))"

definition handleDeleteUtensil ::
  "button \<Rightarrow> fault \<Rightarrow> uuid option \<Rightarrow> nat \<Rightarrow> database \<Rightarrow> effect list \<times> database" where
  "handleDeleteUtensil pressed f caller utensilId db =
     (let dialog = Alert ''Delete Utensil'' ''Are you sure you want to delete this utensil?''
      in case pressed of
           Cancel \<Rightarrow> ([dialog], db)
         | Confirm \<Rightarrow>
             (let result = delete_utensil f caller utensilId db
              in case fst result of
                   Done \<Rightarrow> ([dialog], snd result)
                 | Failed code \<Rightarrow> ([dialog, ConsoleError ''Delete error:''], snd result)
                 | Raised \<Rightarrow> ([dialog], snd result)))"

section \<open>Onboarding: preferences screen\<close>

text \<open>The screen's state, \<^verbatim>\<open>UserPreferences\<close> of \<^verbatim>\<open>OnboardingTastes\<close>.\<close>

record preferences =
  diets :: "string list"
  tastes :: "string list"
  preferred_difficulty :: string
  preferred_time_minutes :: int
  preferred_portions :: int

definition DIET_OPTIONS :: "string list" where
  "DIET_OPTIONS =
     [''Vegan'', ''Vegetarian'', ''Pescatarian'', ''Gluten-Free'', ''Dairy-Free'', ''Keto'', ''Paleo'']"

definition toggleDiet :: "string \<Rightarrow> string list \<Rightarrow> string list" where
  "toggleDiet diet ds = (if diet \<in> set ds then filter (\<lambda>d. d \<noteq> diet) ds else ds @ [diet])"

definition addCustomDiet :: "string \<Rightarrow> string list \<Rightarrow> string list" where
  "addCustomDiet customDiet ds =
     (if trim customDiet \<noteq> [] \<and> trim customDiet \<notin> set ds then ds @ [trim customDiet] else ds)"

definition removeCustomDiet :: "string \<Rightarrow> string list \<Rightarrow> string list" where
  "removeCustomDiet diet ds = filter (\<lambda>d. d \<noteq> diet) ds"

text \<open>
  \<^verbatim>\<open>handleComplete\<close> stores \<^verbatim>\<open>preferences.diets.join(',')\<close> in the \<^verbatim>\<open>diet\<close> column;
  the expression \<^verbatim>\<open>loadPreferences\<close> writes for the list it would load is
  \<^verbatim>\<open>data.diet ? data.diet.split(',').filter(Boolean) : []\<close>.
\<close>

definition save_diet :: "string list \<Rightarrow> string" where
  "save_diet ds = js_join (CHR '','') ds"

definition load_diets :: "string option \<Rightarrow> string list" where
  "load_diets diet =
     (if truthy diet then filter (\<lambda>s. s \<noteq> []) (js_split (CHR '','') (the diet)) else [])"

definition isFormValid :: "preferences \<Rightarrow> bool" where
  "isFormValid p = (diets p \<noteq> [] \<and> tastes p \<noteq> [] \<and> preferred_difficulty p \<noteq> [])"

definition handleComplete ::
  "fault \<Rightarrow> uuid option \<Rightarrow> preferences \<Rightarrow> database \<Rightarrow> effect list \<times> database" where
  "handleComplete f user p db =
     (if \<not> isFormValid p then ([Alert ''Error'' ''Please fill in all required fields''], db)
      else
        (case user of
           None \<Rightarrow> ([Alert ''Error'' ''Failed to save preferences''], db)
         | Some uid \<Rightarrow>
             (let result =
                upsert_preferences f uid
                  \<lparr>pref_diet = Some (save_diet (diets p)), pref_tastes = tastes p,
                   pref_difficulty = Some (preferred_difficulty p),
                   pref_time_minutes = Some (preferred_time_minutes p),
                   pref_portions = Some (preferred_portions p)\<rparr> db
              in case fst result of
                   Done \<Rightarrow> ([RouterPush ''/onboarding/recipes''], snd result)
                 | Failed code \<Rightarrow> ([Alert ''Error'' ''Failed to save preferences''], snd result)
                 | Raised \<Rightarrow> ([Alert ''Error'' ''Failed to save preferences''], snd result))))"

text \<open>\<^verbatim>\<open>n || d\<close> on a nullable number: \<^verbatim>\<open>null\<close> and 0 are falsy.\<close>

definition num_or :: "int option \<Rightarrow> int \<Rightarrow> int" where
  "num_or v d = (case v of None \<Rightarrow> d | Some n \<Rightarrow> if n = 0 then d else n)"

text \<open>
  The initial state of the screen, the argument of \<^verbatim>\<open>useState\<close>.
\<close>

definition initial_preferences :: preferences where
  "initial_preferences =
     \<lparr>diets = [], tastes = [], preferred_difficulty = [], preferred_time_minutes = 30,
      preferred_portions = 2\<rparr>"

text \<open>
  \<^verbatim>\<open>loadPreferences\<close>, called once when the screen mounts. It is declared at module
  level, above the component, and calls \<^verbatim>\<open>setPreferences\<close>, which is a constant of the
  component's body (it comes from \<^verbatim>\<open>useState\<close>) and is not in scope where the function
  is declared. So when a row was read without an error, evaluating the call raises a
  \<^verbatim>\<open>ReferenceError\<close>; the \<^verbatim>\<open>catch\<close> logs it and the state of the screen stays as it was.
  Without a user, without a row or with an error nothing is done at all. The object the
  call was to pass, with the list \<open>load_diets\<close> above, is never stored.
\<close>

definition loadPreferences ::
  "fault \<Rightarrow> uuid option \<Rightarrow> database \<Rightarrow> preferences \<Rightarrow> effect list \<times> preferences" where
  "loadPreferences f user db p =
     (case user of
        None \<Rightarrow> ([], p)
      | Some uid \<Rightarrow>
          (case select_single f (user_preferences db uid) of
             Threw \<Rightarrow> ([ConsoleError ''Failed to load preferences:''], p)
           | Resolved data error \<Rightarrow>
               if data \<noteq> None \<and> error = None
               then ([ConsoleError ''Failed to load preferences:''], p)
               else ([], p)))"

text \<open>
  The diet lists the screen can hold: it starts empty, a pill toggles one of the fixed
  options or a diet already in the list, the text field adds a custom diet, and the
  cross on a custom pill removes it.
\<close>

inductive_set diet_selections :: "string list set" where
  initial: "[] \<in> diet_selections"
| toggled: "ds \<in> diet_selections \<Longrightarrow> diet \<in> set DIET_OPTIONS \<union> set ds \<Longrightarrow>
            toggleDiet diet ds \<in> diet_selections"
| added: "ds \<in> diet_selections \<Longrightarrow> addCustomDiet customDiet ds \<in> diet_selections"
| removed: "ds \<in> diet_selections \<Longrightarrow> diet \<in> set ds \<Longrightarrow>
            removeCustomDiet diet ds \<in> diet_selections"

section \<open>Saving a generated recipe\<close>

text \<open>\<^verbatim>\<open>GeneratedRecipe\<close> of \<^verbatim>\<open>utils/ai.ts\<close>.\<close>

record generated_recipe =
  gen_title :: string
  gen_description :: string
  gen_difficulty :: string
  gen_type :: string
  gen_time :: string
  gen_ingredients :: "(string \<times> string) list"
  gen_instructions :: "string list"
  gen_servings :: int

text \<open>
  The three \<^verbatim>\<open>handleSaveRecipe\<close> functions compute the times and build the row in the
  same way: \<^verbatim>\<open>parseInt(recipe.time) || 30\<close>, then \<^verbatim>\<open>Math.floor(timeInMinutes * 0.3)\<close>
  and \<^verbatim>\<open>Math.floor(timeInMinutes * 0.7)\<close>. The database assigns the id.
\<close>

definition timeInMinutes :: "string \<Rightarrow> int" where
  "timeInMinutes time = num_or (parseInt time) 30"

definition prepTime :: "string \<Rightarrow> int" where
  "prepTime time = floor_times_0_3 (timeInMinutes time)"

definition cookTime :: "string \<Rightarrow> int" where
  "cookTime time = floor_times_0_7 (timeInMinutes time)"

definition recipe_row :: "uuid \<Rightarrow> generated_recipe \<Rightarrow> recipe" where
  "recipe_row uid g =
     \<lparr>rec_id = 0, rec_user_id = uid, rec_title = gen_title g,
      rec_description = gen_description g, rec_ingredients = gen_ingredients g,
      rec_instructions = gen_instructions g, rec_prep_time_minutes = prepTime (gen_time g),
      rec_cook_time_minutes = cookTime (gen_time g), rec_servings = gen_servings g,
      rec_is_used = False\<rparr>"

definition save_recipe_catch :: "effect list" where
  "save_recipe_catch =
     [ConsoleError ''Error saving recipe:'', Alert ''Error'' ''Failed to save recipe. Please try again.'']"

definition save_recipe_success :: "effect list" where
  "save_recipe_success =
     [Alert ''Success'' ''Recipe saved successfully!'', RouterReplace ''/dashboard'']"

text \<open>
  \<^verbatim>\<open>handleSaveRecipe\<close> of the onboarding \<^verbatim>\<open>RecipesScreen\<close>: the insert, then the update
  of the profile, whose answer is not looked at. \<open>f\<close> and \<open>g\<close> are the service's
  treatment of the two calls.
\<close>

definition handleSaveRecipe_onboarding ::
  "fault \<Rightarrow> fault \<Rightarrow> uuid option \<Rightarrow> generated_recipe \<Rightarrow> database \<Rightarrow> effect list \<times> database" where
  "handleSaveRecipe_onboarding f g user recipe db =
     (case user of
        None \<Rightarrow> (save_recipe_catch, db)
      | Some uid \<Rightarrow>
          (let inserted = insert_recipe f (recipe_row uid recipe) db
           in case fst inserted of
                Failed code \<Rightarrow> (save_recipe_catch, snd inserted)
              | Raised \<Rightarrow> (save_recipe_catch, snd inserted)
              | Done \<Rightarrow>
                  (let updated = update_onboarding_complete g uid True (snd inserted)
                   in case fst updated of
                        Raised \<Rightarrow> (save_recipe_catch, snd updated)
                      | Failed code \<Rightarrow> (save_recipe_success, snd updated)
                      | Done \<Rightarrow> (save_recipe_success, snd updated))))"

text \<open>\<^verbatim>\<open>handleSaveRecipe\<close> of \<^verbatim>\<open>RecipeDetailScreen\<close> has the same body, line by line.\<close>

definition handleSaveRecipe_detail ::
  "fault \<Rightarrow> fault \<Rightarrow> uuid option \<Rightarrow> generated_recipe \<Rightarrow> database \<Rightarrow> effect list \<times> database" where
  "handleSaveRecipe_detail = handleSaveRecipe_onboarding"

text \<open>\<^verbatim>\<open>handleSaveRecipe\<close> of \<^verbatim>\<open>CreateRecipeScreen\<close>: the insert only.\<close>

definition handleSaveRecipe_create ::
  "fault \<Rightarrow> uuid option \<Rightarrow> generated_recipe \<Rightarrow> database \<Rightarrow> effect list \<times> database" where
  "handleSaveRecipe_create f user recipe db =
     (case user of
        None \<Rightarrow> (save_recipe_catch, db)
      | Some uid \<Rightarrow>
          (let inserted = insert_recipe f (recipe_row uid recipe) db
           in case fst inserted of
                Failed code \<Rightarrow> (save_recipe_catch, snd inserted)
              | Raised \<Rightarrow> (save_recipe_catch, snd inserted)
              | Done \<Rightarrow> (save_recipe_success, snd inserted)))"

text \<open>
  \<^verbatim>\<open>handleSavePreferences\<close> of \<^verbatim>\<open>CreateRecipeScreen\<close>; its state has optional fields,
  and a falsy field is stored as \<^verbatim>\<open>null\<close>.
\<close>

definition handleSavePreferences ::
  "fault \<Rightarrow> uuid option \<Rightarrow> preferences_row \<Rightarrow> database \<Rightarrow> effect list \<times> database" where
  "handleSavePreferences f user p db =
     (let failed = [ConsoleError ''Error saving preferences:'',
                    Alert ''Error'' ''Failed to save preferences. Please try again.'']
      in case user of
           None \<Rightarrow> (failed, db)
         | Some uid \<Rightarrow>
             (let result =
                upsert_preferences f uid
                  \<lparr>pref_diet = (if truthy (pref_diet p) then pref_diet p else None),
                   pref_tastes = pref_tastes p,
                   pref_difficulty = (if truthy (pref_difficulty p) then pref_difficulty p else None),
                   pref_time_minutes =
                     (if num_or (pref_time_minutes p) 0 = 0 then None else pref_time_minutes p),
                   pref_portions =
                     (if num_or (pref_portions p) 0 = 0 then None else pref_portions p)\<rparr> db
              in case fst result of
                   Done \<Rightarrow> ([Alert ''Success'' ''Preferences saved successfully!''], snd result)
                 | Failed code \<Rightarrow>
                     (ConsoleError ''Database error saving preferences:'' # failed, snd result)
                 | Raised \<Rightarrow> (failed, snd result)))"

section \<open>Dashboard: deleting a recipe\<close>

definition handleDeleteRecipe ::
  "button \<Rightarrow> fault \<Rightarrow> uuid option \<Rightarrow> nat \<Rightarrow> database \<Rightarrow> effect list \<times> database" where
  "handleDeleteRecipe pressed f caller recipeId db =
     (let dialog = Alert ''Delete Recipe'' ''Are you sure you want to delete this recipe?'';
          failed = [ConsoleError ''Error deleting recipe:'',
                    Alert ''Error'' ''Failed to delete recipe. Please try again.'']
      in case pressed of
           Cancel \<Rightarrow> ([dialog], db)
         | Confirm \<Rightarrow>
             (let result = delete_recipe f caller recipeId db
              in case fst result of
                   Done \<Rightarrow> ([dialog, Alert ''Success'' ''Recipe deleted successfully.''], snd result)
                 | Failed code \<Rightarrow> (dialog # failed, snd result)
                 | Raised \<Rightarrow> (dialog # failed, snd result)))"

section \<open>Saved recipe detail screen: the cook action\<close>

text \<open>
  \<^verbatim>\<open>handleCookRecipe\<close> of \<^verbatim>\<open>SavedRecipeDetailScreen\<close>: the confirmation dialog, then,
  when "Cook" is pressed, the call of
  \<^verbatim>\<open>supabase.rpc('select_recipe_and_subtract_ingredients', ...)\<close>, whose outcome is the
  argument \<open>response\<close>. The button that starts it is shown only for a recipe whose
  \<^verbatim>\<open>is_used\<close> is false.
\<close>

definition cook_fallback :: string where
  "cook_fallback = ''Failed to cook recipe. Please check your ingredients.''"

definition cook_dialog :: effect where
  "cook_dialog =
     Alert ''Cook Recipe''
       ''This will subtract the ingredients from your inventory. Are you sure you want to continue?''"

definition cook_success_effects :: "effect list" where
  "cook_success_effects =
     [Alert ''Success'' ''Ingredients have been subtracted from your inventory. Enjoy your meal!'',
      RouterReplace ''/dashboard'']"

definition cook_catch_effects :: "effect list" where
  "cook_catch_effects =
     [ConsoleError ''Error cooking recipe:'',
      Alert ''Error'' ''Failed to cook recipe. Please try again.'']"

fun cook_pressed :: "string remote \<Rightarrow> effect list" where
  "cook_pressed Threw = cook_catch_effects"
| "cook_pressed (Resolved d (Some e)) = cook_catch_effects"
| "cook_pressed (Resolved d None) =
     (if truthy d \<and> startsWith (the d) ''Success'' then cook_success_effects
      else [Alert ''Error'' (or_else d cook_fallback)])"

definition handleCookRecipe :: "button \<Rightarrow> string remote \<Rightarrow> effect list" where
  "handleCookRecipe pressed response =
     (case pressed of Cancel \<Rightarrow> [cook_dialog] | Confirm \<Rightarrow> cook_dialog # cook_pressed response)"

definition cook_button_shown :: "recipe \<Rightarrow> bool" where
  "cook_button_shown r = (\<not> rec_is_used r)"

section \<open>Login\<close>

text \<open>
  \<^verbatim>\<open>handleLogin\<close>: \<open>signIn\<close> is the outcome of \<^verbatim>\<open>signInWithPassword\<close>, \<open>user\<close> the
  result of \<^verbatim>\<open>getUser\<close>, \<open>f\<close> the service's treatment of the read of the profile.
\<close>

datatype sign_in = SignInThrew | SignInError string | SignedIn

definition handleLogin ::
  "string \<Rightarrow> string \<Rightarrow> sign_in \<Rightarrow> uuid option \<Rightarrow> fault \<Rightarrow> database \<Rightarrow> effect list" where
  "handleLogin username password signIn user f db =
     (if username = [] \<or> password = [] then [Alert ''Error'' ''Please fill in all fields'']
      else
        (case signIn of
           SignInThrew \<Rightarrow> [Alert ''Error'' ''An unexpected error occurred'']
         | SignInError message \<Rightarrow> [Alert ''Login Failed'' message]
         | SignedIn \<Rightarrow>
             (case user of
                None \<Rightarrow> []
              | Some uid \<Rightarrow>
                  (case select_single f (profiles db uid) of
                     Threw \<Rightarrow> [Alert ''Error'' ''An unexpected error occurred'']
                   | Resolved profile error \<Rightarrow>
                       if (case profile of None \<Rightarrow> False | Some p \<Rightarrow> onboarding_complete p)
                       then [RouterPush ''/dashboard'']
                       else [RouterPush ''/onboarding/ingredients'']))))"

text \<open>
  Modelled from the spec: the onboarding state machine of section 4.2, which the spec
  says is recomputed at login from live data; the source has no such function. It is
  here to be compared with \<open>handleLogin\<close>. The steps are ingredient count below 3,
  utensil count below 1, preference record incomplete (diet, at least one taste and a
  difficulty are required), no saved recipe yet. \<open>step_screen\<close> is the screen of each
  step, as \<^verbatim>\<open>RootLayout\<close> registers them.
\<close>

datatype onboarding_step =
  NeedsIngredients | NeedsUtensils | NeedsPreferences | NeedsFirstRecipe | Complete

definition preferences_complete :: "preferences_row option \<Rightarrow> bool" where
  "preferences_complete row =
     (case row of
        None \<Rightarrow> False
      | Some p \<Rightarrow> truthy (pref_diet p) \<and> pref_tastes p \<noteq> [] \<and> truthy (pref_difficulty p))"

definition gate_step :: "uuid \<Rightarrow> database \<Rightarrow> onboarding_step" where
  "gate_step uid db =
     (if (case profiles db uid of None \<Rightarrow> False | Some p \<Rightarrow> onboarding_complete p) then Complete
      else if length (filter (\<lambda>r. ing_user_id r = uid) (ingredients db)) < 3 then NeedsIngredients
      else if length (filter (\<lambda>r. ut_user_id r = uid) (utensils db)) < 1 then NeedsUtensils
      else if \<not> preferences_complete (user_preferences db uid) then NeedsPreferences
      else if filter (\<lambda>r. rec_user_id r = uid) (recipes db) = [] then NeedsFirstRecipe
      else Complete)"

definition step_screen :: "onboarding_step \<Rightarrow> string" where
  "step_screen st =
     (case st of
        NeedsIngredients \<Rightarrow> ''/onboarding/ingredients''
      | NeedsUtensils \<Rightarrow> ''/onboarding/utensils''
      | NeedsPreferences \<Rightarrow> ''/onboarding/tastes''
      | NeedsFirstRecipe \<Rightarrow> ''/onboarding/recipes''
      | Complete \<Rightarrow> ''/dashboard'')"

section \<open>The flows of the client as transitions of the database\<close>

text \<open>
  Modelled from the spec: the body of the stored procedure
  \<^verbatim>\<open>select_recipe_and_subtract_ingredients\<close> is not in the repository. By section 4.1
  it changes ingredient quantities and \<^verbatim>\<open>is_used\<close> flags and nothing else;
  \<open>cook_server_effect\<close> is any such change.
\<close>

definition cook_server_effect :: "(ingredient \<Rightarrow> rat) \<Rightarrow> (recipe \<Rightarrow> bool) \<Rightarrow> database \<Rightarrow> database" where
  "cook_server_effect q u db =
     db\<lparr>ingredients := map (\<lambda>r. r\<lparr>ing_quantity := q r\<rparr>) (ingredients db),
        recipes := map (\<lambda>r. r\<lparr>rec_is_used := u r\<rparr>) (recipes db)\<rparr>"

text \<open>
  Every handler of the client that writes to the database, with the inputs it takes.
  Sign-up is not among them: the profile row of a new user is created by a trigger of
  the database, outside the client.
\<close>

datatype action =
    SaveIngredient fault "uuid option" "ingredient option" ingredient_form
  | DeleteIngredient button fault "uuid option" nat
  | SaveUtensil fault "uuid option" "utensil option" string
  | DeleteUtensil button fault "uuid option" nat
  | CompletePreferences fault "uuid option" preferences
  | SavePreferences fault "uuid option" preferences_row
  | SaveRecipeOnboarding fault fault "uuid option" generated_recipe
  | SaveRecipeDetail fault fault "uuid option" generated_recipe
  | SaveRecipeCreate fault "uuid option" generated_recipe
  | DeleteRecipe button fault "uuid option" nat
  | CookRecipe "ingredient \<Rightarrow> rat" "recipe \<Rightarrow> bool"

fun step :: "(string \<Rightarrow> rat option) \<Rightarrow> action \<Rightarrow> database \<Rightarrow> database" where
  "step pf (SaveIngredient f user e form) db = snd (handleSaveIngredient pf f user e form db)"
| "step pf (DeleteIngredient b f caller i) db = snd (handleDeleteIngredient b f caller i db)"
| "step pf (SaveUtensil f user e name) db = snd (handleSaveUtensil f user e name db)"
| "step pf (DeleteUtensil b f caller i) db = snd (handleDeleteUtensil b f caller i db)"
| "step pf (CompletePreferences f user p) db = snd (handleComplete f user p db)"
| "step pf (SavePreferences f user p) db = snd (handleSavePreferences f user p db)"
| "step pf (SaveRecipeOnboarding f g user r) db = snd (handleSaveRecipe_onboarding f g user r db)"
| "step pf (SaveRecipeDetail f g user r) db = snd (handleSaveRecipe_detail f g user r db)"
| "step pf (SaveRecipeCreate f user r) db = snd (handleSaveRecipe_create f user r db)"
| "step pf (DeleteRecipe b f caller i) db = snd (handleDeleteRecipe b f caller i db)"
| "step pf (CookRecipe q u) db = cook_server_effect q u db"

fun run :: "(string \<Rightarrow> rat option) \<Rightarrow> action list \<Rightarrow> database \<Rightarrow> database" where
  "run pf [] db = db"
| "run pf (a # as) db = run pf as (step pf a db)"

text \<open>The flag of a user's profile, false when there is no profile.\<close>

definition onboarded :: "database \<Rightarrow> uuid \<Rightarrow> bool" where
  "onboarded db uid = (case profiles db uid of None \<Rightarrow> False | Some p \<Rightarrow> onboarding_complete p)"

text \<open>The constraints of the \<^verbatim>\<open>ingredients\<close> table: primary key and unique name per user.\<close>

definition ingredients_ok :: "database \<Rightarrow> bool" where
  "ingredients_ok db =
     (distinct (map ing_id (ingredients db)) \<and>
      distinct (map (\<lambda>r. (ing_user_id r, ing_name r)) (ingredients db)))"

definition empty_database :: database where
  "empty_database =
     \<lparr>profiles = Map.empty, ingredients = [], utensils = [], user_preferences = Map.empty,
      recipes = []\<rparr>"

section \<open>The cooking transaction\<close>

text \<open>
  Modelled from the spec: the stored procedure
  \<^verbatim>\<open>select_recipe_and_subtract_ingredients\<close> is called by the client but its body is not
  in the repository; this is the transaction as section 4.1 of the spec words it.

  A quantity is a nonnegative decimal (section 3 of the spec): a negative quantity, in
  the stock or in a recipe, cannot be written.
\<close>

typedef quantity = "{q :: rat. 0 \<le> q}"
  morphisms amount Quantity
  by (rule exI [of _ 0]) simp

text \<open>
  The state is the caller's own rows: the inventory, keyed by ingredient name (unique per
  user), and the saved recipes, keyed by id, each with its ordered list of required
  ingredients (name and quantity) and its \<^verbatim>\<open>is_used\<close> flag. Matching is by exact name.
\<close>

record stock =
  stock_quantity :: quantity
  stock_unit :: string

record requirement =
  req_name :: string
  req_quantity :: quantity

record saved_recipe =
  required :: "requirement list"
  is_used :: bool

record kitchen =
  inventory :: "string \<rightharpoonup> stock"
  cookbook :: "nat \<rightharpoonup> saved_recipe"

datatype cook_result =
    Success
  | InsufficientIngredient string
  | AlreadyUsed
  | NotFound

text \<open>
  The precondition on one required ingredient fails when no ingredient of that name is
  in the stock or the one that is has less than the required quantity.
\<close>

definition shortfall :: "(string \<rightharpoonup> stock) \<Rightarrow> requirement \<Rightarrow> bool" where
  "shortfall items q =
     (case items (req_name q) of
        None \<Rightarrow> True
      | Some s \<Rightarrow> amount (stock_quantity s) < amount (req_quantity q))"

text \<open>
  The decrement of one required ingredient, on the copy of the stock the transaction
  works on. Insufficient stock is an error, not a clamp: there is no result when the
  ingredient is missing or what is left of it is less than the required quantity.
\<close>

definition subtract :: "requirement \<Rightarrow> (string \<rightharpoonup> stock) \<Rightarrow> (string \<rightharpoonup> stock) option" where
  "subtract q items =
     (case items (req_name q) of
        None \<Rightarrow> None
      | Some s \<Rightarrow>
          if amount (stock_quantity s) < amount (req_quantity q) then None
          else Some (items(req_name q \<mapsto>
                 s\<lparr>stock_quantity :=
                     Quantity (amount (stock_quantity s) - amount (req_quantity q))\<rparr>)))"

text \<open>
  The decrements of a recipe's list, one entry after the other in the order of the
  list, each on the stock the earlier ones have left; the name of the entry that
  cannot be subtracted, or the stock after all of them.
\<close>

fun subtract_all ::
  "requirement list \<Rightarrow> (string \<rightharpoonup> stock) \<Rightarrow> string + (string \<rightharpoonup> stock)" where
  "subtract_all [] items = Inr items"
| "subtract_all (q # qs) items =
     (case subtract q items of
        None \<Rightarrow> Inl (req_name q)
      | Some items' \<Rightarrow> subtract_all qs items')"

text \<open>
  The transaction. A recipe id without a recipe of the caller fails with \<open>NotFound\<close>; a
  used recipe with \<open>AlreadyUsed\<close>. The preconditions are checked first: the first
  required ingredient, in the recipe's order, that is missing or has less than
  required fails the call with \<open>InsufficientIngredient\<close>. Then the required quantities
  are subtracted; a subtraction the remaining stock does not cover (a recipe can list a
  name more than once) fails the call with \<open>InsufficientIngredient\<close> as well. Only when
  every entry has been subtracted is the new stock stored and the flag set: a call that
  fails stores nothing. Failures of the transport (\<open>TransientError\<close> in the spec) are
  not part of the transaction; the client meets them in \<open>handleCookRecipe\<close>.
\<close>

definition cookRecipe :: "nat \<Rightarrow> kitchen \<Rightarrow> cook_result \<times> kitchen" where
  "cookRecipe recipeId k =
     (case cookbook k recipeId of
        None \<Rightarrow> (NotFound, k)
      | Some r \<Rightarrow>
          if is_used r then (AlreadyUsed, k)
          else
            (case List.find (shortfall (inventory k)) (required r) of
               Some q \<Rightarrow> (InsufficientIngredient (req_name q), k)
             | None \<Rightarrow>
                 (case subtract_all (required r) (inventory k) of
                    Inl n \<Rightarrow> (InsufficientIngredient n, k)
                  | Inr items \<Rightarrow>
                      (Success,
                       k\<lparr>inventory := items,
                         cookbook := (cookbook k)(recipeId \<mapsto> r\<lparr>is_used := True\<rparr>)\<rparr>))))"

text \<open>
  The total a recipe requires of the ingredient named \<open>n\<close>, and a stock that has, for
  every required ingredient, at least the total required of it.
\<close>

definition total_required :: "requirement list \<Rightarrow> string \<Rightarrow> rat" where
  "total_required qs n =
     sum_list (map (\<lambda>q. amount (req_quantity q)) (filter (\<lambda>q. req_name q = n) qs))"


text \<open>
  The kitchen of the spec's scenarios B and C: the stock is \<open>q\<close> grams of flour and the
  one saved recipe, with id 1, requires 200. The same kitchen with 500 grams and the
  recipe already used, and with a recipe that lists flour twice, 300 grams each time.
\<close>

definition flour_recipe :: saved_recipe where
  "flour_recipe =
     \<lparr>required = [\<lparr>req_name = ''Flour'', req_quantity = Quantity 200\<rparr>], is_used = False\<rparr>"

definition flour_kitchen :: "rat \<Rightarrow> kitchen" where
  "flour_kitchen q =
     \<lparr>inventory = [''Flour'' \<mapsto> \<lparr>stock_quantity = Quantity q, stock_unit = ''g''\<rparr>],
      cookbook = [1 \<mapsto> flour_recipe]\<rparr>"



text \<open>
  For concrete runs: a function that agrees with \<^verbatim>\<open>parseFloat\<close> on strings of decimal
  digits, and the user's ingredients among the rows of the table.
\<close>

definition parseFloat_digits :: "string \<Rightarrow> rat option" where
  "parseFloat_digits s = map_option of_int (parseInt s)"

definition ingredients_of :: "uuid \<Rightarrow> database \<Rightarrow> ingredient list" where
  "ingredients_of uid db = filter (\<lambda>r. ing_user_id r = uid) (ingredients db)"

text \<open>A form that passes the checks of \<open>handleSaveIngredient\<close> and parses to \<open>q\<close>.\<close>

definition form_accepted :: "(string \<Rightarrow> rat option) \<Rightarrow> ingredient_form \<Rightarrow> rat \<Rightarrow> bool" where
  "form_accepted parseFloat formData q =
     (form_name formData \<noteq> [] \<and> form_quantity formData \<noteq> [] \<and> form_unit formData \<noteq> [] \<and>
      parseFloat (form_quantity formData) = Some q \<and> 0 < q)"

text \<open>
  Concrete data for the examples: a new user with a profile and nothing else, a generated
  recipe, and a pantry with one ingredient saved through the add form.
\<close>

definition ann_new :: database where
  "ann_new =
     empty_database\<lparr>profiles := [''ann'' \<mapsto> \<lparr>full_name = ''Ann'', onboarding_complete = False\<rparr>]\<rparr>"

definition pancakes :: "string \<Rightarrow> generated_recipe" where
  "pancakes time =
     \<lparr>gen_title = ''Pancakes'', gen_description = ''Classic fluffy pancakes.'',
      gen_difficulty = ''Easy'', gen_type = ''Breakfast'', gen_time = time,
      gen_ingredients = [(''Flour'', ''2 cups''), (''Milk'', ''1 cup'')],
      gen_instructions = [''Mix.'', ''Cook on griddle.''], gen_servings = 4\<rparr>"

definition flour_form :: "string \<Rightarrow> string \<Rightarrow> ingredient_form" where
  "flour_form quantity unit = \<lparr>form_name = ''Flour'', form_quantity = quantity, form_unit = unit\<rparr>"

definition ann_pantry :: database where
  "ann_pantry =
     snd (handleSaveIngredient parseFloat_digits NoFault (Some ''ann'') None
            (flour_form ''500'' ''g'') ann_new)"

section \<open>Properties of the string helpers\<close>

lemma js_split_no_sep: "sep \<notin> set s \<Longrightarrow> js_split sep s = [s]"
  by (induction s) auto

lemma js_split_append_sep:
  "sep \<notin> set s \<Longrightarrow> js_split sep (s @ sep # rest) = s # js_split sep rest"
  by (induction s) auto

lemma js_split_join:
  "ds \<noteq> [] \<Longrightarrow> \<forall>d \<in> set ds. sep \<notin> set d \<Longrightarrow> js_split sep (js_join sep ds) = ds"
proof (induction sep ds rule: js_join.induct)
  case (1 sep)
  then show ?case by simp
next
  case (2 sep x)
  then show ?case by (simp add: js_split_no_sep)
next
  case (3 sep x y ys)
  then show ?case by (simp add: js_split_append_sep)
qed

lemma js_join_nonempty:
  "ds \<noteq> [] \<Longrightarrow> \<forall>d \<in> set ds. d \<noteq> [] \<Longrightarrow> js_join sep ds \<noteq> []"
  by (induction sep ds rule: js_join.induct) auto

section \<open>The diet list through the \<^verbatim>\<open>diet\<close> column\<close>

text \<open>
  Joined with commas and split again, a list of non-empty names without commas comes
  back as it was; an empty name would be dropped by \<^verbatim>\<open>filter(Boolean)\<close>.
\<close>

lemma load_save_diets:
  assumes "\<forall>d \<in> set ds. d \<noteq> [] \<and> CHR '','' \<notin> set d"
  shows "load_diets (Some (save_diet ds)) = ds"
proof (cases "ds = []")
  case True
  then show ?thesis by (simp add: load_diets_def save_diet_def truthy_def)
next
  case False
  with assms have "js_join (CHR '','') ds \<noteq> []"
    by (simp add: js_join_nonempty)
  moreover from False assms have "js_split (CHR '','') (js_join (CHR '','') ds) = ds"
    by (simp add: js_split_join)
  moreover from assms have "filter (\<lambda>s. s \<noteq> []) ds = ds"
    by (simp add: filter_id_conv)
  ultimately show ?thesis
    by (simp add: load_diets_def save_diet_def truthy_def)
qed

lemma DIET_OPTIONS_nonempty: "d \<in> set DIET_OPTIONS \<Longrightarrow> d \<noteq> []"
  by (auto simp: DIET_OPTIONS_def)

text \<open>No list the screen can hold has an empty name in it.\<close>

lemma diet_selections_nonempty: "ds \<in> diet_selections \<Longrightarrow> d \<in> set ds \<Longrightarrow> d \<noteq> []"
proof (induction arbitrary: d rule: diet_selections.induct)
  case initial
  then show ?case by simp
next
  case (toggled ds diet)
  then show ?case
    by (auto simp: toggleDiet_def split: if_splits dest: DIET_OPTIONS_nonempty)
next
  case (added ds customDiet)
  then show ?case by (auto simp: addCustomDiet_def split: if_splits)
next
  case (removed ds diet)
  then show ?case by (auto simp: removeCustomDiet_def)
qed

lemma trim_a_comma_b: "trim ''a,b'' = ''a,b''"
  by (simp add: trim_def is_space_def)

lemma vegan_keto_selected: "[''Vegan'', ''Keto''] \<in> diet_selections"
proof -
  have "toggleDiet ''Vegan'' [] \<in> diet_selections"
    by (rule diet_selections.toggled [OF diet_selections.initial]) (simp add: DIET_OPTIONS_def)
  then have vegan: "[''Vegan''] \<in> diet_selections"
    by (simp add: toggleDiet_def)
  have "toggleDiet ''Keto'' [''Vegan''] \<in> diet_selections"
    by (rule diet_selections.toggled [OF vegan]) (simp add: DIET_OPTIONS_def)
  then show ?thesis by (simp add: toggleDiet_def)
qed

text \<open>
  On the lists the screen can hold, the join that saves and the split written for the
  load are inverse as long as no diet name contains a comma; the custom diet \<open>a,b\<close> can
  be selected and comes back as two diets.
\<close>

lemma diet_join_split:
  assumes "ds \<in> diet_selections" and "\<forall>d \<in> set ds. CHR '','' \<notin> set d"
  shows "load_diets (Some (save_diet ds)) = ds"
  using assms diet_selections_nonempty [of ds] by (intro load_save_diets) blast

lemma diet_with_comma:
  "[''a,b''] \<in> diet_selections" "load_diets (Some (save_diet [''a,b''])) = [''a'', ''b'']"
proof -
  have "addCustomDiet ''a,b'' [] \<in> diet_selections"
    by (rule diet_selections.added) (rule diet_selections.initial)
  then show "[''a,b''] \<in> diet_selections"
    by (simp add: addCustomDiet_def trim_a_comma_b)
  show "load_diets (Some (save_diet [''a,b''])) = [''a'', ''b'']"
    by (simp add: load_diets_def save_diet_def truthy_def)
qed

lemma vegan_keto_saved:
  "map_option pref_diet
     (user_preferences
        (snd (handleComplete NoFault (Some ''ann'')
                \<lparr>diets = [''Vegan'', ''Keto''], tastes = [''Italian''],
                 preferred_difficulty = ''Easy'', preferred_time_minutes = 30,
                 preferred_portions = 2\<rparr> ann_new)) ''ann'') = Some (Some ''Vegan,Keto'')"
  by (simp add: handleComplete_def isFormValid_def upsert_preferences_def db_write_def
      save_diet_def Let_def)

text \<open>
  C9, evaluated where it fails: \<open>loadPreferences\<close> never stores what it read. Whatever
  the user, the answer of the service and the table, the state of the screen after the
  load is the state before it. With the diets Vegan and Keto selected by a user,
  \<open>handleComplete\<close> stores \<open>Vegan,Keto\<close> in the column, and the split written for the load
  would give the two diets back; but when the screen is mounted again, the load reads
  the row, logs an error and leaves the screen with its initial, empty list of diets.
\<close>

theorem saved_diets_are_not_loaded:
  "snd (loadPreferences f user db q) = q \<and>
   map_option pref_diet
     (user_preferences
        (snd (handleComplete NoFault (Some ''ann'')
                \<lparr>diets = [''Vegan'', ''Keto''], tastes = [''Italian''],
                 preferred_difficulty = ''Easy'', preferred_time_minutes = 30,
                 preferred_portions = 2\<rparr> ann_new)) ''ann'') = Some (Some ''Vegan,Keto'') \<and>
   load_diets (Some ''Vegan,Keto'') = [''Vegan'', ''Keto''] \<and>
   loadPreferences NoFault (Some ''ann'')
     (snd (handleComplete NoFault (Some ''ann'')
             \<lparr>diets = [''Vegan'', ''Keto''], tastes = [''Italian''],
              preferred_difficulty = ''Easy'', preferred_time_minutes = 30,
              preferred_portions = 2\<rparr> ann_new))
     initial_preferences =
       ([ConsoleError ''Failed to load preferences:''], initial_preferences) \<and>
   diets initial_preferences = []"
proof (intro conjI)
  show "snd (loadPreferences f user db q) = q"
    by (simp add: loadPreferences_def split: option.splits remote.splits)
  show "map_option pref_diet
     (user_preferences
        (snd (handleComplete NoFault (Some ''ann'')
                \<lparr>diets = [''Vegan'', ''Keto''], tastes = [''Italian''],
                 preferred_difficulty = ''Easy'', preferred_time_minutes = 30,
                 preferred_portions = 2\<rparr> ann_new)) ''ann'') = Some (Some ''Vegan,Keto'')"
    by (rule vegan_keto_saved)
  show "load_diets (Some ''Vegan,Keto'') = [''Vegan'', ''Keto'']"
    by (simp add: load_diets_def truthy_def)
  show "loadPreferences NoFault (Some ''ann'')
     (snd (handleComplete NoFault (Some ''ann'')
             \<lparr>diets = [''Vegan'', ''Keto''], tastes = [''Italian''],
              preferred_difficulty = ''Easy'', preferred_time_minutes = 30,
              preferred_portions = 2\<rparr> ann_new))
     initial_preferences =
       ([ConsoleError ''Failed to load preferences:''], initial_preferences)"
    by (simp add: loadPreferences_def select_single_def handleComplete_def isFormValid_def
        upsert_preferences_def db_write_def Let_def)
  show "diets initial_preferences = []"
    by (simp add: initial_preferences_def)
qed

section \<open>The cook response is classified by its prefix\<close>

text \<open>
  C7, as stated, fails at the empty response string: it does not start with
  \<open>Success\<close>, yet the message shown is the fixed fallback text and not the returned
  (empty) string.
\<close>

theorem cook_empty_response_counterexample:
  "\<not> startsWith '''' ''Success'' \<and>
   handleCookRecipe Confirm (Resolved (Some '''') None) =
     [cook_dialog, Alert ''Error'' cook_fallback] \<and>
   cook_fallback \<noteq> ''''"
  by (simp add: handleCookRecipe_def startsWith_def or_else_def truthy_def cook_fallback_def)

text \<open>
  C7 (amended): for every response string \<open>s\<close> the client reports success exactly
  when \<open>s\<close> starts with \<open>Success\<close>; otherwise it shows one error alert whose message is
  \<open>s\<close> itself when \<open>s\<close> is not empty, and the fixed fallback message when it is.
\<close>

theorem cook_response_by_prefix:
  "(handleCookRecipe Confirm (Resolved (Some s) None) = cook_dialog # cook_success_effects)
     = startsWith s ''Success'' \<and>
   (\<not> startsWith s ''Success'' \<longrightarrow>
      handleCookRecipe Confirm (Resolved (Some s) None) =
        [cook_dialog, Alert ''Error'' (if s = [] then cook_fallback else s)])"
  by (auto simp: handleCookRecipe_def truthy_def or_else_def startsWith_def
      cook_success_effects_def)

theorem cook_response_by_prefix_witness:
  "\<not> startsWith ''Error: Insufficient ingredient - Flour'' ''Success'' \<and>
   handleCookRecipe Confirm (Resolved (Some ''Error: Insufficient ingredient - Flour'') None) =
     [cook_dialog, Alert ''Error'' ''Error: Insufficient ingredient - Flour'']"
  using cook_response_by_prefix [of "''Error: Insufficient ingredient - Flour''"]
  by (simp add: startsWith_def)

section \<open>Failed mutations and what the user sees\<close>

text \<open>
  C8, evaluated where it fails: when the database answers a delete of an ingredient or
  of a utensil with an error, the handler writes to the console and shows nothing (the
  only alert is the confirmation dialog from before the request); and when the update
  of the profile is answered with an error after a recipe was inserted, the handler
  reports success and the profile is unchanged.
\<close>

theorem failed_delete_is_silent:
  "handleDeleteIngredient Confirm (Rejects code) caller i db =
     ([Alert ''Delete Ingredient'' ''Are you sure you want to delete this ingredient?'',
       ConsoleError ''Delete error:''], db) \<and>
   handleDeleteUtensil Confirm (Rejects code) caller i db =
     ([Alert ''Delete Utensil'' ''Are you sure you want to delete this utensil?'',
       ConsoleError ''Delete error:''], db) \<and>
   fst (handleSaveRecipe_onboarding NoFault (Rejects code) (Some uid) r db) = save_recipe_success \<and>
   profiles (snd (handleSaveRecipe_onboarding NoFault (Rejects code) (Some uid) r db)) = profiles db"
  by (simp add: handleDeleteIngredient_def handleDeleteUtensil_def delete_ingredient_def
      delete_utensil_def db_write_def handleSaveRecipe_onboarding_def insert_recipe_def
      update_onboarding_complete_def Let_def)

text \<open>The sibling on the dashboard does show an alert when its delete fails.\<close>

lemma failed_recipe_delete_is_notified:
  "f \<noteq> NoFault \<Longrightarrow>
   (''Error'', ''Failed to delete recipe. Please try again.'')
     \<in> set (alerts (fst (handleDeleteRecipe Confirm f caller i db)))"
  by (cases f) (simp_all add: handleDeleteRecipe_def delete_recipe_def db_write_def alerts_def Let_def)

section \<open>Routing at login\<close>

text \<open>
  C5, as stated, fails for a user with three ingredients and no utensil whose flag is
  false: the state machine of the spec is at \<open>NeedsUtensils\<close>, whose screen is
  \<^verbatim>\<open>/onboarding/utensils\<close>, and \<open>handleLogin\<close> goes to \<^verbatim>\<open>/onboarding/ingredients\<close>.
\<close>

theorem login_counterexample:
  "handleLogin ''ann@example.org'' ''secret'' SignedIn (Some ''ann'') NoFault
     (empty_database
        \<lparr>profiles := [''ann'' \<mapsto> \<lparr>full_name = ''Ann'', onboarding_complete = False\<rparr>],
         ingredients :=
           [\<lparr>ing_id = 1, ing_user_id = ''ann'', ing_name = ''Flour'', ing_quantity = 500, ing_unit = ''g''\<rparr>,
            \<lparr>ing_id = 2, ing_user_id = ''ann'', ing_name = ''Eggs'', ing_quantity = 6, ing_unit = ''pieces''\<rparr>,
            \<lparr>ing_id = 3, ing_user_id = ''ann'', ing_name = ''Milk'', ing_quantity = 1, ing_unit = ''l''\<rparr>]\<rparr>)
   = [RouterPush ''/onboarding/ingredients''] \<and>
   step_screen (gate_step ''ann''
     (empty_database
        \<lparr>profiles := [''ann'' \<mapsto> \<lparr>full_name = ''Ann'', onboarding_complete = False\<rparr>],
         ingredients :=
           [\<lparr>ing_id = 1, ing_user_id = ''ann'', ing_name = ''Flour'', ing_quantity = 500, ing_unit = ''g''\<rparr>,
            \<lparr>ing_id = 2, ing_user_id = ''ann'', ing_name = ''Eggs'', ing_quantity = 6, ing_unit = ''pieces''\<rparr>,
            \<lparr>ing_id = 3, ing_user_id = ''ann'', ing_name = ''Milk'', ing_quantity = 1, ing_unit = ''l''\<rparr>]\<rparr>))
   = ''/onboarding/utensils''"
  by (simp add: handleLogin_def select_single_def empty_database_def gate_step_def step_screen_def)

text \<open>
  C5 (amended): on every successful login of a user the persisted flag is read; if it
  is true the user is routed to the dashboard, and if it is false, or no profile is
  read, to the first onboarding screen, \<^verbatim>\<open>/onboarding/ingredients\<close>, whatever the
  counts of ingredients, utensils, preferences and recipes are.
\<close>

theorem login_routes_by_flag:
  "username \<noteq> [] \<and> password \<noteq> [] \<and> f \<noteq> Throws \<longrightarrow>
   handleLogin username password SignedIn (Some uid) f db =
     (if f = NoFault \<and> onboarded db uid then [RouterPush ''/dashboard'']
      else [RouterPush ''/onboarding/ingredients''])"
  by (cases f) (auto simp: handleLogin_def select_single_def onboarded_def split: option.splits)

theorem login_routes_by_flag_witness:
  "''ann@example.org'' \<noteq> [] \<and> ''secret'' \<noteq> [] \<and> NoFault \<noteq> Throws \<and>
   handleLogin ''ann@example.org'' ''secret'' SignedIn (Some ''ann'') NoFault
     (empty_database\<lparr>profiles := [''ann'' \<mapsto> \<lparr>full_name = ''Ann'', onboarding_complete = True\<rparr>]\<rparr>)
   = [RouterPush ''/dashboard''] \<and>
   handleLogin ''ann@example.org'' ''secret'' SignedIn (Some ''ann'') NoFault ann_new
   = [RouterPush ''/onboarding/ingredients'']"
  using login_routes_by_flag [of "''ann@example.org''" "''secret''" NoFault "''ann''"
    "empty_database\<lparr>profiles := [''ann'' \<mapsto> \<lparr>full_name = ''Ann'', onboarding_complete = True\<rparr>]\<rparr>"]
    login_routes_by_flag [of "''ann@example.org''" "''secret''" NoFault "''ann''" ann_new]
  by (simp add: onboarded_def ann_new_def empty_database_def)

section \<open>The cooking transaction: success, shortfall, repetition\<close>


lemma amount_Quantity [simp]: "0 \<le> q \<Longrightarrow> amount (Quantity q) = q"
  by (simp add: Quantity_inverse)

lemma total_required_Nil [simp]: "total_required [] n = 0"
  by (simp add: total_required_def)









lemma find_first:
  "List.find P xs = Some x \<Longrightarrow>
   \<exists>pre post. xs = pre @ x # post \<and> (\<forall>p \<in> set pre. \<not> P p) \<and> P x"
proof (induction xs)
  case Nil
  then show ?case by simp
next
  case (Cons a xs)
  show ?case
  proof (cases "P a")
    case True
    with Cons.prems have "a = x" by simp
    with True have "a # xs = [] @ x # xs \<and> (\<forall>p \<in> set []. \<not> P p) \<and> P x" by simp
    then show ?thesis by blast
  next
    case False
    with Cons.prems have "List.find P xs = Some x" by simp
    then obtain pre post where "xs = pre @ x # post" "\<forall>p \<in> set pre. \<not> P p" "P x"
      using Cons.IH by blast
    with False have "a # xs = (a # pre) @ x # post \<and> (\<forall>p \<in> set (a # pre). \<not> P p) \<and> P x"
      by simp
    then show ?thesis by blast
  qed
qed





text \<open>
  C2: cooking a recipe that is not yet used and has a required ingredient that is
  missing from the inventory or has less than required fails with
  \<open>InsufficientIngredient\<close> naming the first such ingredient in the order of the
  recipe's list, and leaves the whole state as it was: no quantity has changed and the
  flag is still false.
\<close>

theorem cook_insufficient:
  "cookbook k recipeId = Some r \<and> \<not> is_used r \<and>
   (\<exists>q \<in> set (required r). shortfall (inventory k) q) \<longrightarrow>
   (\<exists>pre q post.
      required r = pre @ q # post \<and> (\<forall>p \<in> set pre. \<not> shortfall (inventory k) p) \<and>
      shortfall (inventory k) q \<and>
      cookRecipe recipeId k = (InsufficientIngredient (req_name q), k))"
proof
  assume a: "cookbook k recipeId = Some r \<and> \<not> is_used r \<and>
    (\<exists>q \<in> set (required r). shortfall (inventory k) q)"
  then have "List.find (shortfall (inventory k)) (required r) \<noteq> None"
    by (simp add: find_None_iff Bex_def)
  then obtain q where q: "List.find (shortfall (inventory k)) (required r) = Some q"
    by (cases "List.find (shortfall (inventory k)) (required r)") simp_all
  from find_first [OF q] obtain pre post where
    split: "required r = pre @ q # post" and
    before: "\<forall>p \<in> set pre. \<not> shortfall (inventory k) p" and
    short: "shortfall (inventory k) q"
    by blast
  from a q have "cookRecipe recipeId k = (InsufficientIngredient (req_name q), k)"
    by (simp add: cookRecipe_def)
  with split before short show "\<exists>pre q post.
      required r = pre @ q # post \<and> (\<forall>p \<in> set pre. \<not> shortfall (inventory k) p) \<and>
      shortfall (inventory k) q \<and>
      cookRecipe recipeId k = (InsufficientIngredient (req_name q), k)"
    by (intro exI [of _ pre] exI [of _ q] exI [of _ post]) simp
qed

text \<open>
  C3: cooking a recipe whose flag is already true returns \<open>AlreadyUsed\<close> and changes
  nothing; so after a call that succeeded, a repeated call for the same recipe returns
  \<open>AlreadyUsed\<close> and changes nothing: a retry does not apply the recipe twice.
\<close>

theorem cook_already_used:
  "(cookbook k recipeId = Some r \<and> is_used r \<longrightarrow> cookRecipe recipeId k = (AlreadyUsed, k)) \<and>
   (fst (cookRecipe recipeId k) = Success \<longrightarrow>
      cookRecipe recipeId (snd (cookRecipe recipeId k)) =
        (AlreadyUsed, snd (cookRecipe recipeId k)))"
  by (auto simp: cookRecipe_def split: option.splits if_splits sum.splits)

lemma flour_total: "total_required (required flour_recipe) ''Flour'' = 200"
  by (simp add: flour_recipe_def total_required_def)


theorem cook_insufficient_witness:
  "cookbook (flour_kitchen 100) 1 = Some flour_recipe \<and> \<not> is_used flour_recipe \<and>
   shortfall (inventory (flour_kitchen 100)) \<lparr>req_name = ''Flour'', req_quantity = Quantity 200\<rparr> \<and>
   cookRecipe 1 (flour_kitchen 100) = (InsufficientIngredient ''Flour'', flour_kitchen 100)"
  using cook_insufficient [of "flour_kitchen 100" 1 flour_recipe]
  by (auto simp: flour_kitchen_def flour_recipe_def shortfall_def Cons_eq_append_conv)

theorem cook_already_used_witness:
  "fst (cookRecipe 1 (flour_kitchen 500)) = Success \<and>
   cookRecipe 1 (snd (cookRecipe 1 (flour_kitchen 500))) =
     (AlreadyUsed, snd (cookRecipe 1 (flour_kitchen 500)))"
  using cook_already_used [of "flour_kitchen 500" 1 flour_recipe]
  by (simp add: flour_kitchen_def flour_recipe_def cookRecipe_def shortfall_def subtract_def)

section \<open>The onboarding flag is a one-way latch\<close>

lemma profiles_insert_ingredient [simp]:
  "profiles (snd (insert_ingredient f uid n q u db)) = profiles db"
  by (cases f) (simp_all add: insert_ingredient_def db_write_def)

lemma profiles_update_ingredient [simp]:
  "profiles (snd (update_ingredient f uid i n q u db)) = profiles db"
  by (cases f) (simp_all add: update_ingredient_def db_write_def)

lemma profiles_delete_ingredient [simp]:
  "profiles (snd (delete_ingredient f caller i db)) = profiles db"
  by (cases f) (simp_all add: delete_ingredient_def db_write_def)

lemma profiles_insert_utensil [simp]:
  "profiles (snd (insert_utensil f uid n db)) = profiles db"
  by (cases f) (simp_all add: insert_utensil_def db_write_def)

lemma profiles_update_utensil [simp]:
  "profiles (snd (update_utensil f uid i n db)) = profiles db"
  by (cases f) (simp_all add: update_utensil_def db_write_def)

lemma profiles_delete_utensil [simp]:
  "profiles (snd (delete_utensil f caller i db)) = profiles db"
  by (cases f) (simp_all add: delete_utensil_def db_write_def)

lemma profiles_upsert_preferences [simp]:
  "profiles (snd (upsert_preferences f uid row db)) = profiles db"
  by (cases f) (simp_all add: upsert_preferences_def db_write_def)

lemma profiles_insert_recipe [simp]:
  "profiles (snd (insert_recipe f row db)) = profiles db"
  by (cases f) (simp_all add: insert_recipe_def db_write_def)

lemma profiles_delete_recipe [simp]:
  "profiles (snd (delete_recipe f caller i db)) = profiles db"
  by (cases f) (simp_all add: delete_recipe_def db_write_def)

lemma profiles_handleSaveIngredient:
  "profiles (snd (handleSaveIngredient pf f user e form db)) = profiles db"
  by (simp add: handleSaveIngredient_def Let_def split: option.splits outcome.splits)

lemma profiles_handleDeleteIngredient:
  "profiles (snd (handleDeleteIngredient b f caller i db)) = profiles db"
  by (simp add: handleDeleteIngredient_def Let_def split: button.splits outcome.splits)

lemma profiles_handleSaveUtensil:
  "profiles (snd (handleSaveUtensil f user e name db)) = profiles db"
  by (simp add: handleSaveUtensil_def Let_def split: option.splits outcome.splits)

lemma profiles_handleDeleteUtensil:
  "profiles (snd (handleDeleteUtensil b f caller i db)) = profiles db"
  by (simp add: handleDeleteUtensil_def Let_def split: button.splits outcome.splits)

lemma profiles_handleComplete:
  "profiles (snd (handleComplete f user p db)) = profiles db"
  by (simp add: handleComplete_def Let_def split: option.splits outcome.splits)

lemma profiles_handleSavePreferences:
  "profiles (snd (handleSavePreferences f user p db)) = profiles db"
  by (cases user; cases f)
     (simp_all add: handleSavePreferences_def upsert_preferences_def db_write_def Let_def)

lemma profiles_handleSaveRecipe_create:
  "profiles (snd (handleSaveRecipe_create f user r db)) = profiles db"
  by (simp add: handleSaveRecipe_create_def Let_def split: option.splits outcome.splits)

lemma profiles_handleDeleteRecipe:
  "profiles (snd (handleDeleteRecipe b f caller i db)) = profiles db"
  by (simp add: handleDeleteRecipe_def Let_def split: button.splits outcome.splits)

lemma profiles_cook_server_effect:
  "profiles (cook_server_effect q u db) = profiles db"
  by (simp add: cook_server_effect_def)

text \<open>The update of the profile sets the flag of that one user and of nobody else.\<close>

lemma onboarded_update:
  "onboarded (snd (update_onboarding_complete g uid True db)) u =
     (if g = NoFault \<and> u = uid \<and> profiles db uid \<noteq> None then True else onboarded db u)"
  by (cases g) (auto simp: update_onboarding_complete_def db_write_def onboarded_def
      split: option.splits)

lemma onboarded_handleSaveRecipe_onboarding:
  "onboarded (snd (handleSaveRecipe_onboarding f g user r db)) u =
     (if f = NoFault \<and> g = NoFault \<and> user = Some u \<and> profiles db u \<noteq> None then True
      else onboarded db u)"
proof (cases user)
  case None
  then show ?thesis by (simp add: handleSaveRecipe_onboarding_def)
next
  case (Some uid)
  show ?thesis
  proof (cases f)
    case NoFault
    have ins: "fst (insert_recipe NoFault (recipe_row uid r) db) = Done"
      by (simp add: insert_recipe_def db_write_def)
    have "onboarded (snd (handleSaveRecipe_onboarding f g user r db)) u =
        onboarded (snd (update_onboarding_complete g uid True
          (snd (insert_recipe NoFault (recipe_row uid r) db)))) u"
      using Some NoFault ins
      by (simp add: handleSaveRecipe_onboarding_def Let_def split: outcome.splits)
    also have "\<dots> = (if g = NoFault \<and> u = uid \<and> profiles db uid \<noteq> None then True
        else onboarded db u)"
      by (simp add: onboarded_update) (simp add: onboarded_def)
    finally show ?thesis using Some NoFault by auto
  next
    case (Rejects code)
    with Some show ?thesis
      by (simp add: handleSaveRecipe_onboarding_def insert_recipe_def db_write_def)
  next
    case Throws
    with Some show ?thesis
      by (simp add: handleSaveRecipe_onboarding_def insert_recipe_def db_write_def)
  qed
qed

lemma step_onboarded:
  "onboarded (step pf a db) u =
     (if (\<exists>r. a = SaveRecipeOnboarding NoFault NoFault (Some u) r \<or>
               a = SaveRecipeDetail NoFault NoFault (Some u) r) \<and> profiles db u \<noteq> None
      then True else onboarded db u)"
proof (cases a)
  case (SaveRecipeOnboarding f g user r)
  then show ?thesis by (simp add: onboarded_handleSaveRecipe_onboarding)
next
  case (SaveRecipeDetail f g user r)
  then show ?thesis
    by (simp add: handleSaveRecipe_detail_def onboarded_handleSaveRecipe_onboarding)
qed (simp_all add: onboarded_def profiles_handleSaveIngredient profiles_handleDeleteIngredient
    profiles_handleSaveUtensil profiles_handleDeleteUtensil profiles_handleComplete
    profiles_handleSavePreferences profiles_handleSaveRecipe_create profiles_handleDeleteRecipe
    profiles_cook_server_effect)

lemma run_latch: "onboarded db u \<Longrightarrow> onboarded (run pf acts db) u"
proof (induction acts arbitrary: db)
  case Nil
  then show ?case by simp
next
  case (Cons a acts)
  from Cons.prems have "onboarded (step pf a db) u"
    by (simp add: step_onboarded)
  then show ?case by (simp add: Cons.IH)
qed

lemma recipes_first_save:
  "recipes (snd (handleSaveRecipe_onboarding NoFault g (Some u) r db)) =
     recipes db @ [(recipe_row u r)\<lparr>rec_id := next_id (map rec_id (recipes db))\<rparr>]"
  by (cases g; cases "profiles db u")
     (simp_all add: handleSaveRecipe_onboarding_def insert_recipe_def
       update_onboarding_complete_def db_write_def Let_def)

text \<open>
  A new user saves the first recipe and the service answers the update of the profile
  with an error: the recipe is saved, the success alert is shown, the user is sent to
  the dashboard, and the flag is still false.
\<close>

lemma first_save_update_rejected:
  "handleSaveRecipe_onboarding NoFault (Rejects code) (Some ''ann'') (pancakes ''30 minutes'')
       ann_new =
     (save_recipe_success,
      ann_new\<lparr>recipes := [(recipe_row ''ann'' (pancakes ''30 minutes''))\<lparr>rec_id := 1\<rparr>]\<rparr>)"
  by (simp add: handleSaveRecipe_onboarding_def insert_recipe_def update_onboarding_complete_def
      db_write_def ann_new_def empty_database_def next_id_def Let_def)

text \<open>
  C4, with the input where it fails. What holds: through any sequence of the client's
  flows a flag that is true stays true (no flow writes false); saving the preferences
  leaves every profile as it was; and the flag of a user after a flow is true exactly
  when it was true before or the flow is a recipe save of the onboarding recipes screen
  or of the recipe detail screen by that user, who has a profile, whose insert and
  profile update both went through. Both screens set the flag in this way, and both
  insert the recipe whatever becomes of the update. What fails: when the insert goes
  through and the update of the profile is answered with an error, the first recipe
  is saved and reported as saved, and the flag is still false.
\<close>

theorem onboarding_latch:
  "(onboarded db u \<longrightarrow> onboarded (run pf acts db) u) \<and>
   onboarded (step pf a db) u =
     (if (\<exists>r. a = SaveRecipeOnboarding NoFault NoFault (Some u) r \<or>
               a = SaveRecipeDetail NoFault NoFault (Some u) r) \<and> profiles db u \<noteq> None
      then True else onboarded db u) \<and>
   profiles (snd (handleComplete f user p db)) = profiles db \<and>
   onboarded (snd (handleSaveRecipe_onboarding f g user r db)) u =
     (if f = NoFault \<and> g = NoFault \<and> user = Some u \<and> profiles db u \<noteq> None then True
      else onboarded db u) \<and>
   onboarded (snd (handleSaveRecipe_detail f g user r db)) u =
     (if f = NoFault \<and> g = NoFault \<and> user = Some u \<and> profiles db u \<noteq> None then True
      else onboarded db u) \<and>
   recipes (snd (handleSaveRecipe_onboarding NoFault g (Some u) r db)) =
     recipes db @ [(recipe_row u r)\<lparr>rec_id := next_id (map rec_id (recipes db))\<rparr>] \<and>
   recipes (snd (handleSaveRecipe_detail NoFault g (Some u) r db)) =
     recipes db @ [(recipe_row u r)\<lparr>rec_id := next_id (map rec_id (recipes db))\<rparr>] \<and>
   handleSaveRecipe_onboarding NoFault (Rejects code) (Some ''ann'') (pancakes ''30 minutes'')
       ann_new =
     (save_recipe_success,
      ann_new\<lparr>recipes := [(recipe_row ''ann'' (pancakes ''30 minutes''))\<lparr>rec_id := 1\<rparr>]\<rparr>) \<and>
   \<not> onboarded
       (snd (handleSaveRecipe_onboarding NoFault (Rejects code) (Some ''ann'')
               (pancakes ''30 minutes'') ann_new)) ''ann''"
proof (intro conjI impI)
  assume "onboarded db u"
  then show "onboarded (run pf acts db) u" by (rule run_latch)
next
  show "onboarded (step pf a db) u =
     (if (\<exists>r. a = SaveRecipeOnboarding NoFault NoFault (Some u) r \<or>
               a = SaveRecipeDetail NoFault NoFault (Some u) r) \<and> profiles db u \<noteq> None
      then True else onboarded db u)"
    by (rule step_onboarded)
  show "profiles (snd (handleComplete f user p db)) = profiles db"
    by (rule profiles_handleComplete)
  show "onboarded (snd (handleSaveRecipe_onboarding f g user r db)) u =
     (if f = NoFault \<and> g = NoFault \<and> user = Some u \<and> profiles db u \<noteq> None then True
      else onboarded db u)"
    by (rule onboarded_handleSaveRecipe_onboarding)
  then show "onboarded (snd (handleSaveRecipe_detail f g user r db)) u =
     (if f = NoFault \<and> g = NoFault \<and> user = Some u \<and> profiles db u \<noteq> None then True
      else onboarded db u)"
    by (simp only: handleSaveRecipe_detail_def)
  show "recipes (snd (handleSaveRecipe_onboarding NoFault g (Some u) r db)) =
     recipes db @ [(recipe_row u r)\<lparr>rec_id := next_id (map rec_id (recipes db))\<rparr>]"
    by (rule recipes_first_save)
  then show "recipes (snd (handleSaveRecipe_detail NoFault g (Some u) r db)) =
     recipes db @ [(recipe_row u r)\<lparr>rec_id := next_id (map rec_id (recipes db))\<rparr>]"
    by (simp only: handleSaveRecipe_detail_def)
  show "handleSaveRecipe_onboarding NoFault (Rejects code) (Some ''ann'') (pancakes ''30 minutes'')
       ann_new =
     (save_recipe_success,
      ann_new\<lparr>recipes := [(recipe_row ''ann'' (pancakes ''30 minutes''))\<lparr>rec_id := 1\<rparr>]\<rparr>)"
    by (rule first_save_update_rejected)
  show "\<not> onboarded
       (snd (handleSaveRecipe_onboarding NoFault (Rejects code) (Some ''ann'')
               (pancakes ''30 minutes'') ann_new)) ''ann''"
    by (simp add: first_save_update_rejected) (simp add: onboarded_def ann_new_def)
qed

section \<open>Ingredient names stay unique per user\<close>

lemma fold_max_ge: "a \<le> fold max ids (a::nat)"
proof (induction ids arbitrary: a)
  case Nil
  then show ?case by simp
next
  case (Cons x xs)
  have "a \<le> max x a" by simp
  also have "\<dots> \<le> fold max xs (max x a)" by (rule Cons.IH)
  finally show ?case by simp
qed

lemma fold_max_upper: "x \<in> set ids \<Longrightarrow> x \<le> fold max ids (a::nat)"
proof (induction ids arbitrary: a)
  case Nil
  then show ?case by simp
next
  case (Cons y ys)
  show ?case
  proof (cases "x = y")
    case True
    have "x \<le> max y a" using True by simp
    also have "\<dots> \<le> fold max ys (max y a)" by (rule fold_max_ge)
    finally show ?thesis by simp
  next
    case False
    with Cons.prems have "x \<in> set ys" by simp
    then show ?thesis by (simp add: Cons.IH)
  qed
qed

lemma next_id_fresh: "next_id ids \<notin> set ids"
proof
  assume "next_id ids \<in> set ids"
  then have "next_id ids \<le> fold max ids 0" by (rule fold_max_upper)
  then show False by (simp add: next_id_def)
qed

lemma insert_ingredient_ok:
  assumes "ingredients_ok db"
  shows "ingredients_ok (snd (insert_ingredient f uid n q u db))"
proof (cases f)
  case NoFault
  show ?thesis
  proof (cases "\<exists>r \<in> set (ingredients db). ing_user_id r = uid \<and> ing_name r = n")
    case True
    with NoFault assms show ?thesis by (simp add: insert_ingredient_def db_write_def)
  next
    case False
    then have "(uid, n) \<notin> (\<lambda>r. (ing_user_id r, ing_name r)) ` set (ingredients db)" by auto
    moreover have "next_id (map ing_id (ingredients db)) \<notin> ing_id ` set (ingredients db)"
      using next_id_fresh [of "map ing_id (ingredients db)"] by simp
    ultimately show ?thesis
      using NoFault False assms
      by (simp add: insert_ingredient_def db_write_def ingredients_ok_def)
  qed
qed (use assms in \<open>simp_all add: insert_ingredient_def db_write_def\<close>)

lemma update_keeps_unique:
  assumes "distinct (map ing_id xs)"
    and "distinct (map (\<lambda>r. (ing_user_id r, ing_name r)) xs)"
    and "\<not> (\<exists>r \<in> set xs. ing_id r \<noteq> i \<and> ing_user_id r = uid \<and> ing_name r = n)"
  shows "distinct (map (\<lambda>r. (ing_user_id r,
            if ing_id r = i \<and> ing_user_id r = uid then n else ing_name r)) xs)"
  using assms
proof (induction xs)
  case Nil
  then show ?case by simp
next
  case (Cons x xs)
  let ?h = "\<lambda>r. (ing_user_id r, if ing_id r = i \<and> ing_user_id r = uid then n else ing_name r)"
  let ?key = "\<lambda>r. (ing_user_id r, ing_name r)"
  have tail: "distinct (map ?h xs)"
    using Cons.prems by (intro Cons.IH) simp_all
  have neq: "?h y \<noteq> ?h x" if y: "y \<in> set xs" for y
  proof -
    from Cons.prems(1) have "ing_id x \<notin> ing_id ` set xs" by simp
    with y have ids: "ing_id y \<noteq> ing_id x" by (metis imageI)
    from Cons.prems(2) have "?key x \<notin> ?key ` set xs" by simp
    with y have keys: "?key y \<noteq> ?key x" by (metis (mono_tags, lifting) imageI)
    from Cons.prems(3) y have
      noy: "\<not> (ing_id y \<noteq> i \<and> ing_user_id y = uid \<and> ing_name y = n)" and
      nox: "\<not> (ing_id x \<noteq> i \<and> ing_user_id x = uid \<and> ing_name x = n)"
      by auto
    from ids keys noy nox show ?thesis
      by (cases "ing_id x = i \<and> ing_user_id x = uid";
          cases "ing_id y = i \<and> ing_user_id y = uid") auto
  qed
  have "?h x \<notin> ?h ` set xs"
  proof
    assume "?h x \<in> ?h ` set xs"
    then obtain y where "y \<in> set xs" and "?h x = ?h y" by (rule imageE)
    with neq [of y] show False by simp
  qed
  with tail show ?case by simp
qed

lemma update_keys:
  "map (\<lambda>r. (ing_user_id r, ing_name r))
     (map (\<lambda>r. if ing_id r = i \<and> ing_user_id r = uid
               then r\<lparr>ing_name := n, ing_quantity := q, ing_unit := u\<rparr> else r) xs)
   = map (\<lambda>r. (ing_user_id r, if ing_id r = i \<and> ing_user_id r = uid then n else ing_name r)) xs"
  by (induction xs) auto

lemma update_ids:
  "map ing_id (map (\<lambda>r. if ing_id r = i \<and> ing_user_id r = uid
                     then r\<lparr>ing_name := n, ing_quantity := q, ing_unit := u\<rparr> else r) xs)
   = map ing_id xs"
  by (induction xs) auto

lemma update_nothing:
  "\<not> (\<exists>r \<in> set xs. ing_id r = i \<and> ing_user_id r = uid) \<Longrightarrow>
   map (\<lambda>r. if ing_id r = i \<and> ing_user_id r = uid
             then r\<lparr>ing_name := n, ing_quantity := q, ing_unit := u\<rparr> else r) xs = xs"
  by (induction xs) auto

lemma update_ingredient_ok:
  assumes "ingredients_ok db"
  shows "ingredients_ok (snd (update_ingredient f uid i n q u db))"
proof (cases f)
  case NoFault
  show ?thesis
  proof (cases "\<exists>r \<in> set (ingredients db). ing_id r = i \<and> ing_user_id r = uid")
    case matched: True
    show ?thesis
    proof (cases "\<exists>r \<in> set (ingredients db). ing_id r \<noteq> i \<and> ing_user_id r = uid \<and> ing_name r = n")
      case True
      with NoFault matched assms show ?thesis
        by (simp add: update_ingredient_def db_write_def)
    next
      case False
      with assms have "distinct (map (\<lambda>r. (ing_user_id r, ing_name r))
           (map (\<lambda>r. if ing_id r = i \<and> ing_user_id r = uid
                     then r\<lparr>ing_name := n, ing_quantity := q, ing_unit := u\<rparr> else r)
              (ingredients db)))"
        unfolding update_keys by (intro update_keeps_unique) (simp_all add: ingredients_ok_def)
      with NoFault False assms show ?thesis
        by (simp add: update_ingredient_def db_write_def ingredients_ok_def update_ids
            del: map_map)
    qed
  next
    case False
    with NoFault assms show ?thesis
      by (simp add: update_ingredient_def db_write_def update_nothing)
  qed
qed (use assms in \<open>simp_all add: update_ingredient_def db_write_def\<close>)

lemma delete_ingredient_ok:
  assumes "ingredients_ok db"
  shows "ingredients_ok (snd (delete_ingredient f caller i db))"
  using assms
  by (cases f)
     (simp_all add: delete_ingredient_def db_write_def ingredients_ok_def distinct_map_filter)

lemma cook_server_effect_ok:
  assumes "ingredients_ok db"
  shows "ingredients_ok (cook_server_effect q u db)"
proof -
  have "map ing_id (map (\<lambda>r. r\<lparr>ing_quantity := q r\<rparr>) (ingredients db)) = map ing_id (ingredients db)"
    by (induction "ingredients db") auto
  moreover have "map (\<lambda>r. (ing_user_id r, ing_name r)) (map (\<lambda>r. r\<lparr>ing_quantity := q r\<rparr>) (ingredients db))
      = map (\<lambda>r. (ing_user_id r, ing_name r)) (ingredients db)"
    by (induction "ingredients db") auto
  ultimately show ?thesis
    using assms by (simp add: cook_server_effect_def ingredients_ok_def del: map_map)
qed


lemma ingredients_insert_utensil [simp]:
  "ingredients (snd (insert_utensil f uid n db)) = ingredients db"
  by (cases f) (simp_all add: insert_utensil_def db_write_def)

lemma ingredients_update_utensil [simp]:
  "ingredients (snd (update_utensil f uid i n db)) = ingredients db"
  by (cases f) (simp_all add: update_utensil_def db_write_def)

lemma ingredients_delete_utensil [simp]:
  "ingredients (snd (delete_utensil f caller i db)) = ingredients db"
  by (cases f) (simp_all add: delete_utensil_def db_write_def)

lemma ingredients_upsert_preferences [simp]:
  "ingredients (snd (upsert_preferences f uid row db)) = ingredients db"
  by (cases f) (simp_all add: upsert_preferences_def db_write_def)

lemma ingredients_insert_recipe [simp]:
  "ingredients (snd (insert_recipe f row db)) = ingredients db"
  by (cases f) (simp_all add: insert_recipe_def db_write_def)

lemma ingredients_delete_recipe [simp]:
  "ingredients (snd (delete_recipe f caller i db)) = ingredients db"
  by (cases f) (simp_all add: delete_recipe_def db_write_def)

lemma ingredients_update_onboarding_complete [simp]:
  "ingredients (snd (update_onboarding_complete f uid b db)) = ingredients db"
  by (cases f; cases "profiles db uid") (simp_all add: update_onboarding_complete_def db_write_def)

lemma ingredients_handleSaveUtensil:
  "ingredients (snd (handleSaveUtensil f user e name db)) = ingredients db"
  by (simp add: handleSaveUtensil_def Let_def split: option.splits outcome.splits)

lemma ingredients_handleDeleteUtensil:
  "ingredients (snd (handleDeleteUtensil b f caller i db)) = ingredients db"
  by (simp add: handleDeleteUtensil_def Let_def split: button.splits outcome.splits)

lemma ingredients_handleComplete:
  "ingredients (snd (handleComplete f user p db)) = ingredients db"
  by (simp add: handleComplete_def Let_def split: option.splits outcome.splits)

lemma ingredients_handleSavePreferences:
  "ingredients (snd (handleSavePreferences f user p db)) = ingredients db"
  by (cases user; cases f)
     (simp_all add: handleSavePreferences_def upsert_preferences_def db_write_def Let_def)

lemma ingredients_handleSaveRecipe_onboarding:
  "ingredients (snd (handleSaveRecipe_onboarding f g user r db)) = ingredients db"
  by (simp add: handleSaveRecipe_onboarding_def Let_def split: option.splits outcome.splits)

lemma ingredients_handleSaveRecipe_create:
  "ingredients (snd (handleSaveRecipe_create f user r db)) = ingredients db"
  by (simp add: handleSaveRecipe_create_def Let_def split: option.splits outcome.splits)

lemma ingredients_handleDeleteRecipe:
  "ingredients (snd (handleDeleteRecipe b f caller i db)) = ingredients db"
  by (simp add: handleDeleteRecipe_def Let_def split: button.splits outcome.splits)

lemma handleSaveIngredient_ok:
  "ingredients_ok db \<Longrightarrow> ingredients_ok (snd (handleSaveIngredient pf f user e form db))"
  by (simp add: handleSaveIngredient_def Let_def insert_ingredient_ok update_ingredient_ok
      split: option.splits outcome.splits)

lemma handleDeleteIngredient_ok:
  "ingredients_ok db \<Longrightarrow> ingredients_ok (snd (handleDeleteIngredient b f caller i db))"
  by (simp add: handleDeleteIngredient_def Let_def delete_ingredient_ok
      split: button.splits outcome.splits)

lemma step_ok: "ingredients_ok db \<Longrightarrow> ingredients_ok (step pf a db)"
proof (cases a)
  case (SaveIngredient f user e form)
  then show "ingredients_ok db \<Longrightarrow> ?thesis" by (simp add: handleSaveIngredient_ok)
next
  case (DeleteIngredient b f caller i)
  then show "ingredients_ok db \<Longrightarrow> ?thesis" by (simp add: handleDeleteIngredient_ok)
next
  case (CookRecipe q u)
  then show "ingredients_ok db \<Longrightarrow> ?thesis" by (simp add: cook_server_effect_ok)
qed (simp_all add: ingredients_ok_def ingredients_handleSaveUtensil ingredients_handleDeleteUtensil
    ingredients_handleComplete ingredients_handleSavePreferences
    ingredients_handleSaveRecipe_onboarding handleSaveRecipe_detail_def
    ingredients_handleSaveRecipe_create ingredients_handleDeleteRecipe)

lemma run_ok: "ingredients_ok db \<Longrightarrow> ingredients_ok (run pf acts db)"
proof (induction acts arbitrary: db)
  case Nil
  then show ?case by simp
next
  case (Cons a acts)
  from Cons.prems have "ingredients_ok (step pf a db)" by (rule step_ok)
  then show ?case by (simp add: Cons.IH)
qed

lemma empty_database_ok: "ingredients_ok empty_database"
  by (simp add: ingredients_ok_def empty_database_def)

lemma duplicate_create_rejected:
  assumes "form_accepted pf form q"
    and "\<exists>r \<in> set (ingredients db). ing_user_id r = uid \<and> ing_name r = trim (form_name form)"
  shows "handleSaveIngredient pf NoFault (Some uid) None form db =
           ([ConsoleError ''Supabase error:'', duplicate_ingredient_alert], db)"
  using assms
  by (simp add: handleSaveIngredient_def form_accepted_def insert_ingredient_def db_write_def
      Let_def)

lemma update_count:
  "(\<lambda>r. ing_user_id r = v) \<circ>
       (\<lambda>r. if ing_id r = i \<and> ing_user_id r = uid
             then r\<lparr>ing_name := n, ing_quantity := q, ing_unit := u\<rparr> else r)
   = (\<lambda>r. ing_user_id r = v)"
  by (auto simp: fun_eq_iff)

lemma update_ingredient_count:
  "length (ingredients_of v (snd (update_ingredient f uid i n q u db))) =
     length (ingredients_of v db)"
  by (cases f)
     (simp_all add: update_ingredient_def db_write_def ingredients_of_def update_count)

lemma same_name_count:
  assumes "\<exists>r \<in> set (ingredients db). ing_user_id r = uid \<and> ing_name r = trim (form_name form)"
  shows "length (ingredients_of uid (snd (handleSaveIngredient pf f (Some uid) e form db))) =
           length (ingredients_of uid db)"
proof (cases e)
  case None
  have "snd (insert_ingredient f uid (trim (form_name form)) q u db) = db" for q u
    using assms by (cases f) (simp_all add: insert_ingredient_def db_write_def)
  with None show ?thesis
    by (simp add: handleSaveIngredient_def Let_def split: option.splits outcome.splits)
next
  case (Some row)
  then show ?thesis
    by (simp add: handleSaveIngredient_def Let_def update_ingredient_count
        split: option.splits outcome.splits)
qed

lemma edit_in_place:
  assumes ok: "ingredients_ok db" and e: "e \<in> set (ingredients db)"
    and user: "ing_user_id e = uid" and form: "form_accepted pf form q"
    and same: "trim (form_name form) = ing_name e"
  shows "handleSaveIngredient pf NoFault (Some uid) (Some e) form db =
           ([], db\<lparr>ingredients :=
                  map (\<lambda>r. if ing_id r = ing_id e \<and> ing_user_id r = uid
                            then r\<lparr>ing_name := ing_name e, ing_quantity := q,
                                   ing_unit := trim (form_unit form)\<rparr>
                            else r) (ingredients db)\<rparr>)"
proof -
  have "\<not> (\<exists>r \<in> set (ingredients db).
          ing_id r \<noteq> ing_id e \<and> ing_user_id r = uid \<and> ing_name r = ing_name e)"
  proof
    assume "\<exists>r \<in> set (ingredients db).
          ing_id r \<noteq> ing_id e \<and> ing_user_id r = uid \<and> ing_name r = ing_name e"
    then obtain r where r: "r \<in> set (ingredients db)" "ing_id r \<noteq> ing_id e"
        "ing_user_id r = uid" "ing_name r = ing_name e" by blast
    from ok have "inj_on (\<lambda>r. (ing_user_id r, ing_name r)) (set (ingredients db))"
      by (simp add: ingredients_ok_def distinct_map)
    with r e user have "r = e" by (auto dest: inj_onD)
    with r show False by simp
  qed
  with form same show ?thesis
    by (simp add: handleSaveIngredient_def form_accepted_def update_ingredient_def db_write_def
        Let_def)
qed

text \<open>
  C6 (amended): the constraints of the table (unique id, unique name per user) hold in
  every state the client's flows reach, from any state where they hold and so from the
  empty database. A write through the add form with a name the user already has is
  rejected with the duplicate-key error, shown as "Duplicate Ingredient", and leaves the
  database as it was; no write of \<open>handleSaveIngredient\<close> with such a name changes the
  user's number of ingredients; and a write through the edit form that keeps the row's
  name updates that row in place.
\<close>

theorem ingredient_names_stay_unique:
  "(ingredients_ok db \<longrightarrow> ingredients_ok (run pf acts db)) \<and>
   ingredients_ok (run pf acts empty_database) \<and>
   (form_accepted pf form q \<and>
    (\<exists>r \<in> set (ingredients db). ing_user_id r = uid \<and> ing_name r = trim (form_name form)) \<longrightarrow>
      handleSaveIngredient pf NoFault (Some uid) None form db =
        ([ConsoleError ''Supabase error:'', duplicate_ingredient_alert], db)) \<and>
   ((\<exists>r \<in> set (ingredients db). ing_user_id r = uid \<and> ing_name r = trim (form_name form)) \<longrightarrow>
      length (ingredients_of uid (snd (handleSaveIngredient pf f (Some uid) e form db))) =
        length (ingredients_of uid db)) \<and>
   (ingredients_ok db \<and> row \<in> set (ingredients db) \<and> ing_user_id row = uid \<and>
    form_accepted pf form q \<and> trim (form_name form) = ing_name row \<longrightarrow>
      handleSaveIngredient pf NoFault (Some uid) (Some row) form db =
        ([], db\<lparr>ingredients :=
               map (\<lambda>r. if ing_id r = ing_id row \<and> ing_user_id r = uid
                         then r\<lparr>ing_name := ing_name row, ing_quantity := q,
                                ing_unit := trim (form_unit form)\<rparr>
                         else r) (ingredients db)\<rparr>))"
  using run_ok [of db pf acts] run_ok [OF empty_database_ok, of pf acts]
    duplicate_create_rejected [of pf form q db uid] same_name_count [of db uid form pf f e]
    edit_in_place [of db row uid pf form q]
  by blast

section \<open>A second add of the same ingredient\<close>

lemma parse_500: "parseFloat_digits ''500'' = Some 500"
  by (simp add: parseFloat_digits_def parseInt_def is_space_def digit_of_def Let_def)

lemma parse_200: "parseFloat_digits ''200'' = Some 200"
  by (simp add: parseFloat_digits_def parseInt_def is_space_def digit_of_def Let_def)

lemma trim_Flour: "trim ''Flour'' = ''Flour''"
  by (simp add: trim_def is_space_def)

lemma trim_g: "trim ''g'' = ''g''" and trim_kg: "trim ''kg'' = ''kg''"
  by (simp_all add: trim_def is_space_def)

lemma ann_pantry_rows:
  "ann_pantry =
     ann_new\<lparr>ingredients :=
       [\<lparr>ing_id = 1, ing_user_id = ''ann'', ing_name = ''Flour'', ing_quantity = 500,
         ing_unit = ''g''\<rparr>]\<rparr>"
  by (simp add: ann_pantry_def handleSaveIngredient_def flour_form_def parse_500 trim_Flour trim_g
      insert_ingredient_def db_write_def ann_new_def empty_database_def next_id_def Let_def)

text \<open>
  C6, as stated, fails on the add form: with Flour, 500 g, in the pantry, saving Flour,
  200 kg, through the add form does not update the row: the write is rejected and the
  pantry still holds 500 g.
\<close>

theorem duplicate_add_counterexample:
  "ingredients ann_pantry =
     [\<lparr>ing_id = 1, ing_user_id = ''ann'', ing_name = ''Flour'', ing_quantity = 500,
       ing_unit = ''g''\<rparr>] \<and>
   handleSaveIngredient parseFloat_digits NoFault (Some ''ann'') None (flour_form ''200'' ''kg'')
       ann_pantry =
     ([ConsoleError ''Supabase error:'', duplicate_ingredient_alert], ann_pantry)"
  by (simp add: ann_pantry_rows handleSaveIngredient_def flour_form_def parse_200 trim_Flour trim_kg
      insert_ingredient_def db_write_def Let_def)

section \<open>The latch and the unique names on concrete data\<close>

lemma ann_pantry_ok: "ingredients_ok ann_pantry"
  by (simp add: ann_pantry_rows ingredients_ok_def)

lemma flour_200_accepted: "form_accepted parseFloat_digits (flour_form ''200'' ''kg'') 200"
  by (simp add: form_accepted_def flour_form_def parse_200)

theorem ingredient_names_stay_unique_witness:
  "ingredients_ok ann_pantry \<and>
   form_accepted parseFloat_digits (flour_form ''200'' ''kg'') 200 \<and>
   ingredients_ok
     (run parseFloat_digits
        [SaveIngredient NoFault (Some ''ann'') None (flour_form ''200'' ''kg'')] ann_pantry) \<and>
   handleSaveIngredient parseFloat_digits NoFault (Some ''ann'') None (flour_form ''200'' ''kg'')
       ann_pantry =
     ([ConsoleError ''Supabase error:'', duplicate_ingredient_alert], ann_pantry) \<and>
   length (ingredients_of ''ann''
     (snd (handleSaveIngredient parseFloat_digits NoFault (Some ''ann'') None
             (flour_form ''200'' ''kg'') ann_pantry))) = 1 \<and>
   handleSaveIngredient parseFloat_digits NoFault (Some ''ann'')
       (Some \<lparr>ing_id = 1, ing_user_id = ''ann'', ing_name = ''Flour'', ing_quantity = 500,
               ing_unit = ''g''\<rparr>)
       (flour_form ''200'' ''kg'') ann_pantry =
     ([], ann_new\<lparr>ingredients :=
            [\<lparr>ing_id = 1, ing_user_id = ''ann'', ing_name = ''Flour'', ing_quantity = 200,
              ing_unit = ''kg''\<rparr>]\<rparr>)"
  using ingredient_names_stay_unique [of ann_pantry parseFloat_digits
      "[SaveIngredient NoFault (Some ''ann'') None (flour_form ''200'' ''kg'')]"
      "flour_form ''200'' ''kg''" 200 "''ann''" NoFault None
      "\<lparr>ing_id = 1, ing_user_id = ''ann'', ing_name = ''Flour'', ing_quantity = 500,
        ing_unit = ''g''\<rparr>"]
    ann_pantry_ok flour_200_accepted
  by (simp add: ann_pantry_rows flour_form_def trim_Flour trim_kg ingredients_of_def)

lemma ann_new_profile: "profiles ann_new ''ann'' \<noteq> None" and ann_new_flag: "\<not> onboarded ann_new ''ann''"
  by (simp_all add: ann_new_def onboarded_def)

theorem onboarding_latch_witness:
  "\<not> onboarded ann_new ''ann'' \<and>
   onboarded (snd (handleSaveRecipe_onboarding NoFault NoFault (Some ''ann'')
                (pancakes ''30 minutes'') ann_new)) ''ann'' \<and>
   onboarded (snd (handleSaveRecipe_detail NoFault NoFault (Some ''ann'')
                (pancakes ''30 minutes'') ann_new)) ''ann'' \<and>
   onboarded
     (run parseFloat_digits
        [CompletePreferences NoFault (Some ''ann'')
           \<lparr>diets = [''Vegan''], tastes = [''Italian''], preferred_difficulty = ''Easy'',
            preferred_time_minutes = 30, preferred_portions = 2\<rparr>,
         DeleteRecipe Confirm NoFault (Some ''ann'') 1]
        (snd (handleSaveRecipe_onboarding NoFault NoFault (Some ''ann'')
                (pancakes ''30 minutes'') ann_new))) ''ann'' \<and>
   \<not> onboarded
       (snd (handleSaveRecipe_onboarding NoFault (Rejects ''42501'') (Some ''ann'')
               (pancakes ''30 minutes'') ann_new)) ''ann''"
  using onboarding_latch [of "snd (handleSaveRecipe_onboarding NoFault NoFault (Some ''ann'')
                (pancakes ''30 minutes'') ann_new)" "''ann''" parseFloat_digits
        "[CompletePreferences NoFault (Some ''ann'')
           \<lparr>diets = [''Vegan''], tastes = [''Italian''], preferred_difficulty = ''Easy'',
            preferred_time_minutes = 30, preferred_portions = 2\<rparr>,
         DeleteRecipe Confirm NoFault (Some ''ann'') 1]"]
    onboarding_latch [of ann_new "''ann''" parseFloat_digits "[]"
        "SaveRecipeOnboarding NoFault NoFault (Some ''ann'') (pancakes ''30 minutes'')"
        NoFault "Some ''ann''"
        "\<lparr>diets = [''Vegan''], tastes = [''Italian''], preferred_difficulty = ''Easy'',
          preferred_time_minutes = 30, preferred_portions = 2\<rparr>"
        NoFault "pancakes ''30 minutes''" "''42501''"]
    ann_new_profile ann_new_flag
  by simp

section \<open>Rounding to a double\<close>


































section \<open>The times of a saved recipe\<close>










end
